theory Spec2Isabelle
  imports Complex_Main "HOL-Library.Word" "HOL-Library.Log_Nat"
begin

section \<open>Library values used by pygpstime.py\<close>

text \<open>
  The program is Python. Its numbers are unbounded ints (HOL \<open>int\<close>) and floats. The
  floats of the time measurement are idealised as \<open>real\<close>: tick samples of
  \<open>time.perf_counter()\<close> and the result of \<open>total_seconds()\<close>. The rounding that
  Python's \<open>datetime\<close> module itself performs (a \<open>timedelta\<close> holds whole
  microseconds) is modelled. The sync interval, which the user types, is a double with
  its infinities and NaN, and its arithmetic rounds (section on the floats of the sync
  interval).

  A naive \<open>datetime\<close> is represented by its value, the number of microseconds since
  0001-01-01T00:00:00 in the proleptic Gregorian calendar; a \<open>timedelta\<close> is a number of
  microseconds. Addition, subtraction and comparison of datetimes are then those of
  \<open>int\<close>, as in Python. The calendar fields are computed from the value the way
  CPython's \<open>datetime.py\<close> does (\<open>_ymd2ord\<close>, \<open>_ord2ymd\<close>). Datetimes are taken
  to stay inside Python's range (years 1 to 9999) and inside the range in which the
  platform knows the local offset, so that the arithmetic and \<open>astimezone()\<close> do not
  raise.
\<close>

type_synonym timedelta = int
type_synonym datetime = int

record py_date =
  d_year :: int
  d_month :: int
  d_day :: int

record py_time =
  t_hour :: int
  t_minute :: int
  t_second :: int
  t_microsecond :: int

definition is_leap :: "int \<Rightarrow> bool" where
  "is_leap y = (y mod 4 = 0 \<and> (y mod 100 \<noteq> 0 \<or> y mod 400 = 0))"

definition days_before_year :: "int \<Rightarrow> int" where
  "days_before_year y = (let y1 = y - 1 in y1 * 365 + y1 div 4 - y1 div 100 + y1 div 400)"

definition DAYS_IN_MONTH :: "int list" where
  "DAYS_IN_MONTH = [-1, 31, 28, 31, 30, 31, 30, 31, 31, 30, 31, 30, 31]"

definition DAYS_BEFORE_MONTH :: "int list" where
  "DAYS_BEFORE_MONTH = [-1, 0, 31, 59, 90, 120, 151, 181, 212, 243, 273, 304, 334]"

definition days_before_month :: "int \<Rightarrow> int \<Rightarrow> int" where
  "days_before_month y m =
     DAYS_BEFORE_MONTH ! nat m + (if m > 2 \<and> is_leap y then 1 else 0)"

definition ymd2ord :: "int \<Rightarrow> int \<Rightarrow> int \<Rightarrow> int" where
  "ymd2ord y m d = days_before_year y + days_before_month y m + d"

text \<open>\<open>_ord2ymd\<close>: the year, month and day of a proleptic Gregorian ordinal (day 1 is
  0001-01-01). 146097, 36524 and 1461 are the days in 400, 100 and 4 years.\<close>

definition ord2ymd :: "int \<Rightarrow> int \<times> int \<times> int" where
  "ord2ymd n0 =
     (let n = n0 - 1;
          n400 = n div 146097; n = n mod 146097;
          n100 = n div 36524; n = n mod 36524;
          n4 = n div 1461; n = n mod 1461;
          n1 = n div 365; n = n mod 365;
          year = n400 * 400 + 1 + n100 * 100 + n4 * 4 + n1
      in if n1 = 4 \<or> n100 = 4 then (year - 1, 12, 31)
         else
           (let leapyear = (n1 = 3 \<and> (n4 \<noteq> 24 \<or> n100 = 3));
                month = (n + 50) div 32;
                preceding = DAYS_BEFORE_MONTH ! nat month
                              + (if month > 2 \<and> leapyear then 1 else 0)
            in if preceding > n
               then (let month' = month - 1;
                         preceding' = preceding
                            - (DAYS_IN_MONTH ! nat month'
                                 + (if month' = 2 \<and> leapyear then 1 else 0))
                     in (year, month', n - preceding' + 1))
               else (year, month, n - preceding + 1)))"

definition us_per_day :: int where
  "us_per_day = 86400000000"

definition toordinal :: "datetime \<Rightarrow> int" where
  "toordinal dt = dt div us_per_day + 1"

definition dt_year :: "datetime \<Rightarrow> int" where
  "dt_year dt = fst (ord2ymd (toordinal dt))"

definition dt_month :: "datetime \<Rightarrow> int" where
  "dt_month dt = fst (snd (ord2ymd (toordinal dt)))"

definition dt_day :: "datetime \<Rightarrow> int" where
  "dt_day dt = snd (snd (ord2ymd (toordinal dt)))"

definition dt_hour :: "datetime \<Rightarrow> int" where
  "dt_hour dt = (dt mod us_per_day) div 3600000000"

definition dt_minute :: "datetime \<Rightarrow> int" where
  "dt_minute dt = (dt mod us_per_day) div 60000000 mod 60"

definition dt_second :: "datetime \<Rightarrow> int" where
  "dt_second dt = (dt mod us_per_day) div 1000000 mod 60"

definition dt_microsecond :: "datetime \<Rightarrow> int" where
  "dt_microsecond dt = dt mod 1000000"

text \<open>\<open>datetime.datetime.combine(date, time)\<close>.\<close>

definition combine :: "py_date \<Rightarrow> py_time \<Rightarrow> datetime" where
  "combine d t =
     (ymd2ord (d_year d) (d_month d) (d_day d) - 1) * us_per_day
       + ((t_hour t * 60 + t_minute t) * 60 + t_second t) * 1000000 + t_microsecond t"

text \<open>Python's \<open>round\<close> (ties to even) and \<open>int\<close> of a float (truncation towards zero).\<close>

definition py_round :: "real \<Rightarrow> int" where
  "py_round x =
     (let f = \<lfloor>x\<rfloor>; r = x - of_int f
      in if r < 1 / 2 then f else if 1 / 2 < r then f + 1 else if even f then f else f + 1)"

definition py_int :: "real \<Rightarrow> int" where
  "py_int x = (if 0 \<le> x then \<lfloor>x\<rfloor> else \<lceil>x\<rceil>)"

text \<open>\<open>datetime.timedelta(seconds=x)\<close> for a float \<open>x\<close>: the nearest whole number of
  microseconds, ties to even. \<open>td.total_seconds()\<close> divides the microseconds by \<open>10**6\<close>.\<close>

definition timedelta_seconds :: "real \<Rightarrow> timedelta" where
  "timedelta_seconds x = py_round (x * 1000000)"

definition total_seconds :: "timedelta \<Rightarrow> real" where
  "total_seconds td = of_int td / 1000000"

text \<open>An offset-aware datetime: the wall-clock fields and the fixed UTC offset of its
  \<open>tzinfo\<close>. \<open>a - b\<close> on two aware datetimes with distinct \<open>tzinfo\<close> objects is the
  difference of the fields, corrected by both offsets.\<close>

record aware_datetime =
  naive :: datetime
  utcoffset :: timedelta

definition aware_sub :: "aware_datetime \<Rightarrow> aware_datetime \<Rightarrow> timedelta" where
  "aware_sub a b = (naive a - naive b) + utcoffset b - utcoffset a"

text \<open>\<open>dt.replace(tzinfo=datetime.timezone.utc)\<close>.\<close>

definition replace_tzinfo_utc :: "datetime \<Rightarrow> aware_datetime" where
  "replace_tzinfo_utc dt = \<lparr>naive = dt, utcoffset = 0\<rparr>"

text \<open>Strings: \<open>s.startswith(p)\<close>, \<open>sub in s\<close>, \<open>s.replace(old, new)\<close> and \<open>s.strip()\<close>.
  The whitespace that \<open>strip\<close> removes from text decoded as ASCII is 0x09 to 0x0D,
  0x1C to 0x1F and the space.\<close>

definition startswith :: "string \<Rightarrow> string \<Rightarrow> bool" where
  "startswith s p = (take (length p) s = p)"

fun py_in :: "string \<Rightarrow> string \<Rightarrow> bool" where
  "py_in sub [] = (sub = [])"
| "py_in sub (c # cs) = (startswith (c # cs) sub \<or> py_in sub cs)"

function py_replace :: "string \<Rightarrow> string \<Rightarrow> string \<Rightarrow> string" where
  "py_replace s old new =
     (if old = [] then new @ concat (map (\<lambda>c. c # new) s)
      else if s = [] then []
      else if startswith s old then new @ py_replace (drop (length old) s) old new
      else hd s # py_replace (tl s) old new)"
  by pat_completeness auto
termination
  by (relation "measure (\<lambda>(s, old, new). length s)") auto

definition py_isspace :: "char \<Rightarrow> bool" where
  "py_isspace c =
     (c \<in> set [CHR 0x09, CHR 0x0A, CHR 0x0B, CHR 0x0C, CHR 0x0D,
                CHR 0x1C, CHR 0x1D, CHR 0x1E, CHR 0x1F, CHR 0x20])"

definition strip :: "string \<Rightarrow> string" where
  "strip s = rev (dropWhile py_isspace (rev (dropWhile py_isspace s)))"

section \<open>The floats of the sync interval\<close>

text \<open>
  The sync interval is the result of \<open>float(entry)\<close>, which accepts \<open>nan\<close>, \<open>inf\<close> and
  decimals that no double holds, and it goes through \<open>minutes * 60 * 1000\<close> and \<open>int\<close>.
  It is a double (IEEE 754 binary64): \<open>Finite x\<close> is the double of value \<open>x\<close>, and there
  are the two infinities and NaN. The two zeros are not told apart: nothing here depends
  on the sign of a zero.

  \<open>round_double x\<close> is the double that an operation with the exact result \<open>x\<close>
  returns: the nearest double, ties to the even significand. The significand has 53
  bits, so the doubles around \<open>x\<close> are the multiples of \<open>2 ^ (e - 52)\<close>, where
  \<open>2 ^ e \<le> \<bar>x\<bar> < 2 ^ (e + 1)\<close>; below \<open>2 ^ - 1022\<close> the spacing stays
  \<open>2 ^ - 1074\<close>, and a result that rounds to \<open>2 ^ 1024\<close> or more is an infinity.
  \<open>binary_exponent a\<close> is that \<open>e\<close>, from the bit length of the integer part of \<open>a\<close>
  or of \<open>1 / a\<close>.
\<close>

datatype py_float = Finite real | PosInf | NegInf | NaN

definition pow2 :: "int \<Rightarrow> real" where
  "pow2 e = (if 0 \<le> e then 2 ^ nat e else 1 / 2 ^ nat (- e))"

definition binary_exponent :: "real \<Rightarrow> int" where
  "binary_exponent a =
     (if 1 \<le> a then bitlen \<lfloor>a\<rfloor> - 1 else - bitlen (\<lceil>1 / a\<rceil> - 1))"

definition round_double :: "real \<Rightarrow> py_float" where
  "round_double x =
     (if x = 0 then Finite 0
      else
        (let a = \<bar>x\<bar>;
             e = max (binary_exponent a) (- 1022);
             ulp = pow2 (e - 52);
             r = of_int (py_round (a / ulp)) * ulp
         in if pow2 1024 \<le> r then (if 0 < x then PosInf else NegInf)
            else Finite (if 0 < x then r else - r)))"

text \<open>The product of two doubles. An infinity times zero is NaN.\<close>

definition signed_inf :: "real \<Rightarrow> py_float" where
  "signed_inf x = (if x = 0 then NaN else if 0 < x then PosInf else NegInf)"

fun float_mul :: "py_float \<Rightarrow> py_float \<Rightarrow> py_float" where
  "float_mul (Finite x) (Finite y) = round_double (x * y)"
| "float_mul (Finite x) PosInf = signed_inf x"
| "float_mul (Finite x) NegInf = signed_inf (- x)"
| "float_mul PosInf (Finite y) = signed_inf y"
| "float_mul NegInf (Finite y) = signed_inf (- y)"
| "float_mul PosInf PosInf = PosInf"
| "float_mul PosInf NegInf = NegInf"
| "float_mul NegInf PosInf = NegInf"
| "float_mul NegInf NegInf = PosInf"
| "float_mul NaN y = NaN"
| "float_mul x NaN = NaN"

text \<open>
  A number of the configuration is an int (the default 30, or an integer of
  config.json) or a float (what Apply stores, or a float of config.json).
  \<open>py_mul v k\<close> is \<open>v * k\<close> for an int literal \<open>k\<close> that a double holds exactly, as 60
  and 1000 are: on an int the product is exact, on a float \<open>k\<close> is converted and the
  product rounds. \<open>int_of_num v\<close> is \<open>int(v)\<close>: on a float it truncates towards zero, it
  raises ValueError on NaN and OverflowError on an infinity. The third exception,
  \<open>TclError\<close>, is the one \<open>tkinter\<close> raises when Tcl rejects a command.
\<close>

datatype py_num = PyInt int | PyFloat py_float

datatype py_exception = ValueError | OverflowError | TclError

fun py_mul :: "py_num \<Rightarrow> int \<Rightarrow> py_num" where
  "py_mul (PyInt a) k = PyInt (a * k)"
| "py_mul (PyFloat x) k = PyFloat (float_mul x (Finite (of_int k)))"

fun int_of_num :: "py_num \<Rightarrow> py_exception + int" where
  "int_of_num (PyInt a) = Inr a"
| "int_of_num (PyFloat (Finite x)) = Inr (py_int x)"
| "int_of_num (PyFloat NaN) = Inl ValueError"
| "int_of_num (PyFloat PosInf) = Inl OverflowError"
| "int_of_num (PyFloat NegInf) = Inl OverflowError"

declare py_replace.simps [simp del]

section \<open>The boundaries of the program\<close>

text \<open>
  \<open>pynmea2.parse(line)\<close> is a library call. On a line that starts with \<open>$GPRMC\<close> or
  \<open>$GNRMC\<close> it raises \<open>pynmea2.ParseError\<close> (no match, bad checksum, unknown
  sentence), or it returns an RMC sentence, of which the program reads \<open>is_valid\<close>,
  \<open>datestamp\<close> and \<open>timestamp\<close>; the last two are \<open>None\<close> when the field is empty.
  \<open>OtherException e\<close> stands for any exception that is not a \<open>ParseError\<close> and is
  raised by the parser or by the use of its result in lines 292 to 294, before the fix
  is stored: it reaches the outer handler.
\<close>

record rmc_msg =
  is_valid :: bool
  datestamp :: "py_date option"
  timestamp :: "py_time option"

datatype parse_outcome = ParseError | OtherException string | Parsed rmc_msg

text \<open>The Windows structure passed to \<open>SetSystemTime\<close> and \<open>SetLocalTime\<close>: eight
  \<open>WORD\<close> fields.\<close>

record SYSTEMTIME =
  wYear :: "16 word"
  wMonth :: "16 word"
  wDayOfWeek :: "16 word"
  wDay :: "16 word"
  wHour :: "16 word"
  wMinute :: "16 word"
  wSecond :: "16 word"
  wMilliseconds :: "16 word"

datatype clock_call = SetSystemTime SYSTEMTIME | SetLocalTime SYSTEMTIME

text \<open>
  What the process cannot compute by itself is a parameter:
  \<^item> \<open>pynmea2_parse\<close>: the sentence parser;
  \<^item> \<open>utcoffset_of_utc u\<close>: the UTC offset of the process's local zone at the UTC instant
    \<open>u\<close>; \<open>utcoffset_of_local n\<close>: the offset Python gives the naive local time \<open>n\<close>
    (both as \<open>astimezone()\<close> finds them);
  \<^item> \<open>strftime_utc\<close>: \<open>dt.strftime("%Y-%m-%d %H:%M:%S UTC")\<close>;
  \<^item> \<open>strptime\<close>: \<open>datetime.strptime(s, "%Y-%m-%d %H:%M:%S")\<close>, \<open>None\<close> for ValueError;
  \<^item> \<open>kernel32_SetSystemTime\<close>, \<open>kernel32_SetLocalTime\<close>: the exception text when the
    \<open>ctypes\<close> call raises, \<open>None\<close> when it returns;
  \<^item> \<open>float_of_str\<close>: Python's \<open>float(s)\<close>, \<open>None\<close> for ValueError; it accepts
    \<open>nan\<close> and \<open>inf\<close>, and a decimal too large for a double is an infinity;
  \<^item> \<open>config_write_error\<close>: the exception text when writing config.json fails;
  \<^item> \<open>after_raises ms\<close>: \<open>root.after(ms, f)\<close> raises \<open>TclError\<close>, as it does when
    \<open>ms\<close> does not fit the integers of Tcl.
\<close>

record env =
  pynmea2_parse :: "string \<Rightarrow> parse_outcome"
  utcoffset_of_utc :: "datetime \<Rightarrow> timedelta"
  utcoffset_of_local :: "datetime \<Rightarrow> timedelta"
  strftime_utc :: "datetime \<Rightarrow> string"
  strptime :: "string \<Rightarrow> datetime option"
  kernel32_SetSystemTime :: "SYSTEMTIME \<Rightarrow> string option"
  kernel32_SetLocalTime :: "SYSTEMTIME \<Rightarrow> string option"
  float_of_str :: "string \<Rightarrow> py_float option"
  config_write_error :: "string option"
  after_raises :: "int \<Rightarrow> bool"

text \<open>\<open>astimezone()\<close> with no argument. On an aware datetime: the same instant in the
  local zone. On a naive datetime: the fields are taken as local time and keep their
  values; the local offset is attached.\<close>

definition astimezone_aware :: "env \<Rightarrow> aware_datetime \<Rightarrow> aware_datetime" where
  "astimezone_aware env a =
     (let utc = naive a - utcoffset a; off = utcoffset_of_utc env utc
      in \<lparr>naive = utc + off, utcoffset = off\<rparr>)"

definition astimezone_naive :: "env \<Rightarrow> datetime \<Rightarrow> aware_datetime" where
  "astimezone_naive env n =
     (let off = utcoffset_of_local env n; utc = n - off
      in \<lparr>naive = utc + off, utcoffset = off\<rparr>)"

section \<open>The state of GpsTimeSyncApp\<close>

text \<open>A line of the status box, by its format string:
  \<^item> \<open>Error_opening_port e\<close>: \<open>"Error opening port: {e}"\<close>
  \<^item> \<open>Read_error e\<close>: \<open>"Read error: {e}"\<close>
  \<^item> \<open>Time_set_LOCAL dt\<close>: \<open>"System time set to LOCAL: {dt.isoformat()}"\<close>
  \<^item> \<open>Time_set_UTC dt\<close>: \<open>"System time set to UTC: {dt.isoformat()}"\<close>
  \<^item> \<open>Interval_set m\<close>: \<open>"Auto-sync interval set to {m} minute(s)."\<close>
\<close>

datatype status_line =
    Error_opening_port string
  | Read_error string
  | Time_set_LOCAL datetime
  | Time_set_UTC datetime
  | Interval_set py_float

text \<open>
  The attributes of the application object that the time-synchronisation code reads or
  writes, and the effects it has on its collaborators, each as a log:
  \<^item> \<open>sync_interval_minutes\<close> is \<open>self.config["sync_interval_minutes"]\<close>, \<open>None\<close> when
    the key is absent; config.json is taken to hold a number under this key;
  \<^item> \<open>ser_open\<close> is \<open>self.ser and self.ser.is_open\<close>;
  \<^item> \<open>status_box\<close> holds the lines appended by \<open>log_status\<close>;
  \<^item> \<open>error_boxes\<close> holds the (title, message) pairs of \<open>messagebox.showerror\<close>;
  \<^item> \<open>clock_calls\<close> holds the calls made to \<open>kernel32\<close>;
  \<^item> \<open>after_queue\<close> holds the delays in milliseconds of the pending
    \<open>root.after(ms, self.auto_sync_callback)\<close> timers (the handle that \<open>after\<close> returns
    is not kept by the program);
  \<^item> \<open>uncaught\<close> holds the exceptions that left a callback of the Tk main loop: Tk
    reports them (\<open>report_callback_exception\<close> prints the traceback) and the main loop
    goes on, with the state as the callback left it;
  \<^item> \<open>slept\<close> is the total of \<open>time.sleep\<close> in seconds.
\<close>

record app =
  sync_interval_minutes :: "py_num option"
  auto_connect_var :: bool
  use_local_time_var :: bool
  sync_interval_var :: string
  gps_time_str :: string
  app_running :: bool
  keep_reading :: bool
  ser_open :: bool
  last_gps_utc :: "datetime option"
  last_delta_sec :: "real option"
  perf_base :: real
  time_base :: datetime
  status_box :: "status_line list"
  error_boxes :: "(string \<times> string) list"
  clock_calls :: "clock_call list"
  after_queue :: "int list"
  uncaught :: "py_exception list"
  slept :: nat

definition log_status :: "status_line \<Rightarrow> app \<Rightarrow> app" where
  "log_status message s = s\<lparr>status_box := status_box s @ [message]\<rparr>"

definition showerror :: "string \<Rightarrow> string \<Rightarrow> app \<Rightarrow> app" where
  "showerror title message s = s\<lparr>error_boxes := error_boxes s @ [(title, message)]\<rparr>"

definition report_callback_exception :: "py_exception \<Rightarrow> app \<Rightarrow> app" where
  "report_callback_exception e s = s\<lparr>uncaught := uncaught s @ [e]\<rparr>"

definition sleep :: "nat \<Rightarrow> app \<Rightarrow> app" where
  "sleep n s = s\<lparr>slept := slept s + n\<rparr>"

section \<open>Setting the clock\<close>

text \<open>The structure both setters fill. \<open>int(dt.microsecond / 1000)\<close> is a float
  division followed by truncation.\<close>

definition fill_SYSTEMTIME :: "datetime \<Rightarrow> SYSTEMTIME" where
  "fill_SYSTEMTIME dt =
     \<lparr>wYear = word_of_int (dt_year dt),
      wMonth = word_of_int (dt_month dt),
      wDayOfWeek = 0,
      wDay = word_of_int (dt_day dt),
      wHour = word_of_int (dt_hour dt),
      wMinute = word_of_int (dt_minute dt),
      wSecond = word_of_int (dt_second dt),
      wMilliseconds = word_of_int (py_int (of_int (dt_microsecond dt) / 1000))\<rparr>"

text \<open>Both setters return the text of the \<open>OSError\<close> they raise, if any, and the state
  with the call recorded.\<close>

definition set_system_time_utc :: "env \<Rightarrow> datetime \<Rightarrow> app \<Rightarrow> string option \<times> app" where
  "set_system_time_utc env dt_utc s =
     (let st = fill_SYSTEMTIME dt_utc;
          s' = s\<lparr>clock_calls := clock_calls s @ [SetSystemTime st]\<rparr>
      in case kernel32_SetSystemTime env st of
           None \<Rightarrow> (None, s')
         | Some e \<Rightarrow> (Some (''Failed to set system time (UTC): '' @ e), s'))"

definition set_system_time_local :: "env \<Rightarrow> datetime \<Rightarrow> app \<Rightarrow> string option \<times> app" where
  "set_system_time_local env dt_local s =
     (let st = fill_SYSTEMTIME dt_local;
          s' = s\<lparr>clock_calls := clock_calls s @ [SetLocalTime st]\<rparr>
      in case kernel32_SetLocalTime env st of
           None \<Rightarrow> (None, s')
         | Some e \<Rightarrow> (Some (''Failed to set system time (Local): '' @ e), s'))"

section \<open>Sync to GPS\<close>

text \<open>\<open>sync_time(gps_utc=None)\<close>. The instant is the argument, else the last fix, else
  what the GPS time label parses to; with none of them an error box is shown and the
  function returns.\<close>

definition sync_time :: "env \<Rightarrow> datetime option \<Rightarrow> app \<Rightarrow> app" where
  "sync_time env gps_utc s =
     (let resolved =
            (case gps_utc of
               Some u \<Rightarrow> Some u
             | None \<Rightarrow>
                 (case last_gps_utc s of
                    Some u \<Rightarrow> Some u
                  | None \<Rightarrow>
                      (let label_str = gps_time_str s
                       in if \<not> py_in ''UTC'' label_str then None
                          else strptime env (py_replace label_str '' UTC'' []))))
      in case resolved of
           None \<Rightarrow> showerror ''Sync Error'' ''No valid GPS time available.'' s
         | Some u \<Rightarrow>
             if use_local_time_var s then
               (let local_aware = astimezone_aware env (replace_tzinfo_utc u);
                    local_naive = naive local_aware
                in case set_system_time_local env local_naive s of
                     (None, s') \<Rightarrow> log_status (Time_set_LOCAL local_naive) s'
                   | (Some e, s') \<Rightarrow> showerror ''Sync Error'' e s')
             else
               (case set_system_time_utc env u s of
                  (None, s') \<Rightarrow> log_status (Time_set_UTC u) s'
                | (Some e, s') \<Rightarrow> showerror ''Sync Error'' e s'))"

section \<open>The background thread\<close>

definition perf_to_system_time :: "app \<Rightarrow> real \<Rightarrow> datetime" where
  "perf_to_system_time s pc_time =
     (let delta_sec = pc_time - perf_base s;
          td = timedelta_seconds delta_sec
      in time_base s + td)"

definition convert_nmea_to_datetime :: "rmc_msg \<Rightarrow> datetime option" where
  "convert_nmea_to_datetime rmc_msg =
     (case (datestamp rmc_msg, timestamp rmc_msg) of
        (Some d, Some t) \<Rightarrow> Some (combine d t)
      | _ \<Rightarrow> None)"

text \<open>The handler of the outer \<open>except Exception\<close>: log, close the port, sleep.\<close>

definition read_error :: "string \<Rightarrow> app \<Rightarrow> app" where
  "read_error e s = sleep 3 ((log_status (Read_error e) s)\<lparr>ser_open := False\<rparr>)"

text \<open>
  One pass through the \<open>while\<close> body needs what the serial port does in it:
  \<open>open_outcome\<close> is the exception text of \<open>serial.Serial(...)\<close>, \<open>None\<close> when the port
  opens (consulted only when the port is not open), and \<open>read_outcome\<close> is what
  \<open>readline()\<close> does: it raises, or it returns text between two samples \<open>t_start\<close> and
  \<open>t_end\<close> of \<open>time.perf_counter()\<close>. The text is the bytes read, decoded as ASCII
  with \<open>errors='replace'\<close>: a character outside ASCII stands for the replacement
  character that the decoding leaves for a byte that is not ASCII.
\<close>

datatype read_result = ReadRaises string | ReadLine real string real

record iteration =
  open_outcome :: "string option"
  read_outcome :: read_result

text \<open>Lines 281 to 314: what the body does with the stripped line. The first component
  of the pair is the local variable \<open>first_valid_time_received\<close>.\<close>

definition handle_line :: "env \<Rightarrow> real \<Rightarrow> string \<Rightarrow> real \<Rightarrow> bool \<times> app \<Rightarrow> bool \<times> app" where
  "handle_line env t_start line t_end fs =
     (let first_valid_time_received = fst fs; s = snd fs
      in if line = [] then (first_valid_time_received, s)
         else
           (let t_mid = (t_start + t_end) / 2;
                system_time_at_mid = perf_to_system_time s t_mid
            in if startswith line ''$GPRMC'' \<or> startswith line ''$GNRMC'' then
                 (case pynmea2_parse env line of
                    ParseError \<Rightarrow> (first_valid_time_received, s)
                  | OtherException e \<Rightarrow> (first_valid_time_received, read_error e s)
                  | Parsed msg \<Rightarrow>
                      if is_valid msg then
                        (case convert_nmea_to_datetime msg of
                           None \<Rightarrow> (first_valid_time_received, s)
                         | Some gps_utc \<Rightarrow>
                             (let s1 = s\<lparr>last_gps_utc := Some gps_utc,
                                         gps_time_str := strftime_utc env gps_utc\<rparr>;
                                  gps_local_aware =
                                    astimezone_aware env (replace_tzinfo_utc gps_utc);
                                  sys_local_aware = astimezone_naive env system_time_at_mid;
                                  dt_sec = total_seconds
                                             (aware_sub gps_local_aware sys_local_aware);
                                  s2 = s1\<lparr>last_delta_sec := Some dt_sec\<rparr>
                              in if auto_connect_var s2 \<and> \<not> first_valid_time_received
                                 then (True, sync_time env (Some gps_utc) s2)
                                 else (first_valid_time_received, s2)))
                      else (first_valid_time_received, s))
               else (first_valid_time_received, s)))"

text \<open>Lines 263 to 325: one pass through the body of the \<open>while\<close> loop.\<close>

definition loop_body :: "env \<Rightarrow> iteration \<Rightarrow> bool \<times> app \<Rightarrow> bool \<times> app" where
  "loop_body env it fs =
     (let first_valid_time_received = fst fs; s = snd fs;
          opened = (if ser_open s then None else open_outcome it)
      in case opened of
           Some e \<Rightarrow> (first_valid_time_received, sleep 3 (log_status (Error_opening_port e) s))
         | None \<Rightarrow>
             (let s1 = s\<lparr>ser_open := True\<rparr>
              in case read_outcome it of
                   ReadRaises e \<Rightarrow> (first_valid_time_received, read_error e s1)
                 | ReadLine t_start text t_end \<Rightarrow>
                     handle_line env t_start (strip text) t_end
                       (first_valid_time_received, s1)))"

text \<open>The loop, run for the passes listed: \<open>while self.app_running and
  self.keep_reading\<close>. The list ends where the observation of the thread ends.
  \<open>gps_thread_loop\<close> is the thread's function: it starts with
  \<open>first_valid_time_received = False\<close>.\<close>

fun while_loop :: "env \<Rightarrow> iteration list \<Rightarrow> bool \<times> app \<Rightarrow> bool \<times> app" where
  "while_loop env [] fs = fs"
| "while_loop env (it # its) fs =
     (if app_running (snd fs) \<and> keep_reading (snd fs)
      then while_loop env its (loop_body env it fs)
      else fs)"


section \<open>Auto-sync\<close>

text \<open>\<open>save_config\<close> rewrites config.json; of the modelled state it changes nothing
  but the error boxes, when the write fails.\<close>

definition save_config :: "env \<Rightarrow> app \<Rightarrow> app" where
  "save_config env s =
     (case config_write_error env of
        None \<Rightarrow> s
      | Some e \<Rightarrow> showerror ''Config Error'' (''Failed to save config: '' @ e) s)"

text \<open>
  \<open>schedule_auto_sync\<close>: \<open>interval_ms minutes\<close> is \<open>int(minutes * 60 * 1000)\<close>, which
  raises when the product is NaN or an infinity; then \<open>root.after\<close> is not reached and
  the exception leaves the function. So does the exception of \<open>root.after\<close>, when Tk
  does not take the delay.
\<close>

definition interval_ms :: "py_num \<Rightarrow> py_exception + int" where
  "interval_ms minutes = int_of_num (py_mul (py_mul minutes 60) 1000)"

definition schedule_auto_sync :: "env \<Rightarrow> app \<Rightarrow> py_exception + app" where
  "schedule_auto_sync env s =
     (let minutes = (case sync_interval_minutes s of None \<Rightarrow> PyInt 30 | Some m \<Rightarrow> m)
      in case interval_ms minutes of
           Inl e \<Rightarrow> Inl e
         | Inr ms \<Rightarrow>
             if after_raises env ms then Inl TclError
             else Inr (s\<lparr>after_queue := after_queue s @ [ms]\<rparr>))"

text \<open>\<open>auto_sync_callback\<close> is run by Tk: an exception of \<open>schedule_auto_sync\<close> leaves
  it, after \<open>sync_time\<close> has run, and no timer is armed.\<close>

definition auto_sync_callback :: "env \<Rightarrow> app \<Rightarrow> app" where
  "auto_sync_callback env s =
     (let s1 = sync_time env None s
      in case schedule_auto_sync env s1 of
           Inl e \<Rightarrow> report_callback_exception e s1
         | Inr s2 \<Rightarrow> s2)"

text \<open>
  \<open>apply_auto_sync_interval\<close>, the command of the Apply button. The \<open>try\<close> block covers
  the conversion of the entry and everything after it, and catches ValueError only: the
  ValueError of \<open>float\<close> (nothing stored) and the ValueError of \<open>int\<close> on NaN (raised in
  \<open>schedule_auto_sync\<close>, after the interval has been stored, saved and logged) both
  show the error box; the OverflowError of \<open>int\<close> on an infinity and the TclError of
  \<open>root.after\<close> leave the callback.
\<close>

definition apply_auto_sync_interval :: "env \<Rightarrow> app \<Rightarrow> app" where
  "apply_auto_sync_interval env s =
     (case float_of_str env (sync_interval_var s) of
        None \<Rightarrow> showerror ''Error'' ''Invalid sync interval. Please enter a numeric value.'' s
      | Some minutes \<Rightarrow>
          (let s1 = log_status (Interval_set minutes)
                      (save_config env (s\<lparr>sync_interval_minutes := Some (PyFloat minutes)\<rparr>))
           in case schedule_auto_sync env s1 of
                Inr s2 \<Rightarrow> s2
              | Inl e \<Rightarrow>
                  if e = ValueError
                  then showerror ''Error''
                         ''Invalid sync interval. Please enter a numeric value.'' s1
                  else report_callback_exception e s1))"

text \<open>Tk runs a pending timer once: the \<open>i\<close>-th pending timer leaves the queue and its
  callback runs.\<close>

definition timer_fires :: "env \<Rightarrow> nat \<Rightarrow> app \<Rightarrow> app" where
  "timer_fires env i s =
     (if i < length (after_queue s)
      then auto_sync_callback env
             (s\<lparr>after_queue := take i (after_queue s) @ drop (Suc i) (after_queue s)\<rparr>)
      else s)"

section \<open>A concrete setting\<close>

text \<open>
  \<open>initial_app\<close> holds the attributes as \<open>__init__\<close> sets them from the default
  configuration (no config.json), with the anchor \<open>perf_base\<close>, \<open>time_base\<close> given.
  \<open>demo_env\<close> is an environment at UTC+1 in which the parser accepts the sentence
  \<open>$GPRMC,123519,A,...,230394,...\<close> (12:35:19 UTC on 1994-03-23), reads the status
  \<open>V\<close> of \<open>void_sentence\<close> as not valid and raises \<open>ParseError\<close> on any other line,
  and in which both clock calls return. \<open>float\<close> is given on a few entries: 0.29,
  0.57 and 1e30 are read as the doubles nearest to them,
  \<open>5224175567749775 / 2 ^ 54\<close>, \<open>5134103575202365 / 2 ^ 53\<close> and
  \<open>1000000000000000019884624838656\<close>. Tk takes a delay that fits 64 bits.
  62900022919000000 is 1994-03-23T12:35:19 and 62900026500000000 is
  1994-03-23T13:35:00 in microseconds.
\<close>

definition initial_app :: "real \<Rightarrow> datetime \<Rightarrow> app" where
  "initial_app pb tb =
     \<lparr>sync_interval_minutes = Some (PyInt 30),
      auto_connect_var = False,
      use_local_time_var = True,
      sync_interval_var = ''30'',
      gps_time_str = ''--:--:--'',
      app_running = True,
      keep_reading = False,
      ser_open = False,
      last_gps_utc = None,
      last_delta_sec = None,
      perf_base = pb,
      time_base = tb,
      status_box = [],
      error_boxes = [],
      clock_calls = [],
      after_queue = [],
      uncaught = [],
      slept = 0\<rparr>"

definition demo_sentence :: string where
  "demo_sentence = ''$GPRMC,123519,A,4807.038,N,01131.000,E,022.4,084.4,230394,003.1,W*6A''"

definition demo_fix :: rmc_msg where
  "demo_fix =
     \<lparr>is_valid = True,
      datestamp = Some \<lparr>d_year = 1994, d_month = 3, d_day = 23\<rparr>,
      timestamp = Some \<lparr>t_hour = 12, t_minute = 35, t_second = 19, t_microsecond = 0\<rparr>\<rparr>"

definition void_sentence :: string where
  "void_sentence = ''$GNRMC,123520,V,,,,,,,230394,,,N''"

definition void_fix :: rmc_msg where
  "void_fix =
     \<lparr>is_valid = False,
      datestamp = Some \<lparr>d_year = 1994, d_month = 3, d_day = 23\<rparr>,
      timestamp = Some \<lparr>t_hour = 12, t_minute = 35, t_second = 20, t_microsecond = 0\<rparr>\<rparr>"

definition demo_env :: env where
  "demo_env =
     \<lparr>pynmea2_parse =
        (\<lambda>line. if line = demo_sentence then Parsed demo_fix
                else if line = void_sentence then Parsed void_fix
                else ParseError),
      utcoffset_of_utc = (\<lambda>u. 3600000000),
      utcoffset_of_local = (\<lambda>n. 3600000000),
      strftime_utc = (\<lambda>dt. if dt = 62900022919000000 then ''1994-03-23 12:35:19 UTC'' else ''?''),
      strptime = (\<lambda>str. if str = ''1994-03-23 12:35:19'' then Some 62900022919000000 else None),
      kernel32_SetSystemTime = (\<lambda>st. None),
      kernel32_SetLocalTime = (\<lambda>st. None),
      float_of_str =
        (\<lambda>str. if str = ''5'' then Some (Finite 5)
               else if str = ''30'' then Some (Finite 30)
               else if str = ''0.29'' then Some (Finite (5224175567749775 / 18014398509481984))
               else if str = ''0.57'' then Some (Finite (5134103575202365 / 9007199254740992))
               else if str = ''nan'' then Some NaN
               else if str = ''inf'' \<or> str = ''1e400'' then Some PosInf
               else if str = ''1e30'' then Some (Finite 1000000000000000019884624838656)
               else None),
      config_write_error = None,
      after_raises = (\<lambda>ms. ms < - (2 ^ 63) \<or> 2 ^ 63 \<le> ms)\<rparr>"

definition demo_app :: app where
  "demo_app = (initial_app 100 62900026500000000)\<lparr>keep_reading := True\<rparr>"

definition demo_read :: iteration where
  "demo_read = \<lparr>open_outcome = None,
                 read_outcome = ReadLine 119 (demo_sentence @ [CHR 0x0D, CHR 0x0A]) (1191 / 10)\<rparr>"

definition void_read :: iteration where
  "void_read = \<lparr>open_outcome = None, read_outcome = ReadLine 120 void_sentence 121\<rparr>"

definition bad_sentence :: string where
  "bad_sentence = ''$GPRMC,123519,A,4807.038,N,01131.000,E,022.4,084.4,230394,003.1,W*00''"

definition bad_read :: iteration where
  "bad_read = \<lparr>open_outcome = None, read_outcome = ReadLine 120 bad_sentence 121\<rparr>"

definition demo_synced :: app where
  "demo_synced = demo_app\<lparr>last_gps_utc := Some 62900022919000000,
                           gps_time_str := ''1994-03-23 12:35:19 UTC'',
                           last_delta_sec := Some (- 1 / 20)\<rparr>"

definition demo_labelled :: app where
  "demo_labelled = demo_app\<lparr>gps_time_str := ''1994-03-23 12:35:19 UTC''\<rparr>"

section \<open>Observing a run\<close>

text \<open>
  \<open>decoded env it s\<close> is the fix that a pass of the loop stores, if any: what the pass
  leaves in the slot of the last fix when it starts with the slot empty (and the
  first-fix flag set, so that it does not call \<open>sync_time\<close>). \<open>fixes_of\<close> lists the fixes
  stored during a run of the loop, in order.
\<close>

definition decoded :: "env \<Rightarrow> iteration \<Rightarrow> app \<Rightarrow> datetime option" where
  "decoded env it s = last_gps_utc (snd (loop_body env it (True, s\<lparr>last_gps_utc := None\<rparr>)))"


text \<open>
  What can happen to the application while it runs: the thread makes a pass of its loop,
  the user presses SYNC to GPS, a pending timer fires, the user presses Apply with a text
  in the interval entry, or toggles one of the two check boxes (which saves the
  configuration). The state is the thread's local flag and the application.
\<close>

datatype action =
    Thread_pass iteration
  | Sync_button
  | Timer nat
  | Apply_button string
  | Auto_connect_check bool
  | Local_time_check bool

fun step :: "env \<Rightarrow> action \<Rightarrow> bool \<times> app \<Rightarrow> bool \<times> app" where
  "step env (Thread_pass it) (f, s) =
     (if app_running s \<and> keep_reading s then loop_body env it (f, s) else (f, s))"
| "step env Sync_button (f, s) = (f, sync_time env None s)"
| "step env (Timer i) (f, s) = (f, timer_fires env i s)"
| "step env (Apply_button entry) (f, s) =
     (f, apply_auto_sync_interval env (s\<lparr>sync_interval_var := entry\<rparr>))"
| "step env (Auto_connect_check b) (f, s) = (f, save_config env (s\<lparr>auto_connect_var := b\<rparr>))"
| "step env (Local_time_check b) (f, s) = (f, save_config env (s\<lparr>use_local_time_var := b\<rparr>))"

fun run :: "env \<Rightarrow> action list \<Rightarrow> bool \<times> app \<Rightarrow> bool \<times> app" where
  "run env [] fs = fs"
| "run env (a # as) fs = run env as (step env a fs)"


section \<open>Auxiliary facts\<close>

lemmas sync_time_unfold = sync_time_def set_system_time_local_def set_system_time_utc_def
  showerror_def log_status_def Let_def

lemma sync_time_frame:
  "last_gps_utc (sync_time env g s) = last_gps_utc s"
  "last_delta_sec (sync_time env g s) = last_delta_sec s"
  "gps_time_str (sync_time env g s) = gps_time_str s"
  "ser_open (sync_time env g s) = ser_open s"
  "app_running (sync_time env g s) = app_running s"
  "keep_reading (sync_time env g s) = keep_reading s"
  "auto_connect_var (sync_time env g s) = auto_connect_var s"
  "use_local_time_var (sync_time env g s) = use_local_time_var s"
  "after_queue (sync_time env g s) = after_queue s"
  "sync_interval_minutes (sync_time env g s) = sync_interval_minutes s"
  "perf_base (sync_time env g s) = perf_base s"
  "time_base (sync_time env g s) = time_base s"
  "slept (sync_time env g s) = slept s"
  "uncaught (sync_time env g s) = uncaught s"
  by (simp_all add: sync_time_unfold split: option.split)

lemma handle_line_accepted:
  assumes "line \<noteq> []"
      and "startswith line ''$GPRMC'' \<or> startswith line ''$GNRMC''"
      and "pynmea2_parse env line = Parsed msg"
      and "is_valid msg" and "datestamp msg = Some d" and "timestamp msg = Some t"
  shows "handle_line env t_start line t_end (f, s) =
     (let gps_utc = combine d t;
          s2 = s\<lparr>last_gps_utc := Some gps_utc,
                 gps_time_str := strftime_utc env gps_utc,
                 last_delta_sec := Some (total_seconds
                    (aware_sub (astimezone_aware env (replace_tzinfo_utc gps_utc))
                       (astimezone_naive env (perf_to_system_time s ((t_start + t_end) / 2)))))\<rparr>
      in if auto_connect_var s \<and> \<not> f then (True, sync_time env (Some gps_utc) s2) else (f, s2))"
  using assms
  by (simp add: handle_line_def convert_nmea_to_datetime_def Let_def)

lemma delta_value:
  "total_seconds (aware_sub (astimezone_aware env (replace_tzinfo_utc u)) (astimezone_naive env n))
     = of_int (u - (n - utcoffset_of_local env n)) / 1000000"
  by (simp add: total_seconds_def aware_sub_def astimezone_aware_def astimezone_naive_def
      replace_tzinfo_utc_def Let_def)

lemma demo_strip: "strip (demo_sentence @ [CHR 0x0D, CHR 0x0A]) = demo_sentence"
  by (simp add: strip_def demo_sentence_def py_isspace_def)

lemma demo_combine: "combine \<lparr>d_year = 1994, d_month = 3, d_day = 23\<rparr>
    \<lparr>t_hour = 12, t_minute = 35, t_second = 19, t_microsecond = 0\<rparr> = 62900022919000000"
  by (simp add: combine_def ymd2ord_def days_before_year_def
      days_before_month_def DAYS_BEFORE_MONTH_def is_leap_def us_per_day_def)

lemma demo_mid: "perf_to_system_time demo_app ((119 + 1191 / 10) / 2) = 62900026519050000"
  by (simp add: perf_to_system_time_def demo_app_def initial_app_def timedelta_seconds_def
      py_round_def Let_def)

lemma handle_line_rejected:
  assumes "line = [] \<or> \<not> (startswith line ''$GPRMC'' \<or> startswith line ''$GNRMC'') \<or>
           (\<exists>msg. pynmea2_parse env line = Parsed msg \<and>
                  (\<not> is_valid msg \<or> datestamp msg = None \<or> timestamp msg = None))"
  shows "handle_line env t_start line t_end (f, s) = (f, s)"
  using assms
  by (auto simp: handle_line_def convert_nmea_to_datetime_def Let_def
      split: parse_outcome.split option.split)

lemma loop_body_reads:
  assumes "ser_open s \<or> open_outcome it = None"
      and "read_outcome it = ReadLine t_start text t_end"
  shows "loop_body env it (f, s) =
           handle_line env t_start (strip text) t_end (f, s\<lparr>ser_open := True\<rparr>)"
  using assms by (auto simp: loop_body_def Let_def)

lemma void_strip: "strip void_sentence = void_sentence"
  by (simp add: strip_def void_sentence_def py_isspace_def)

lemma py_round_range: "\<lfloor>x\<rfloor> \<le> py_round x \<and> py_round x \<le> \<lfloor>x\<rfloor> + 1"
  by (simp add: py_round_def Let_def)

lemma py_round_error: "\<bar>of_int (py_round x) - x\<bar> \<le> 1 / 2"
proof -
  have "of_int \<lfloor>x\<rfloor> \<le> x" "x < of_int \<lfloor>x\<rfloor> + 1"
    by linarith+
  then show ?thesis
    by (auto simp: py_round_def Let_def)
qed

lemma py_round_of_int: "py_round (of_int k) = k"
  by (simp add: py_round_def Let_def)

lemma py_round_mono:
  assumes "x \<le> y"
  shows "py_round x \<le> py_round y"
proof (cases "\<lfloor>x\<rfloor> < \<lfloor>y\<rfloor>")
  case True
  have "py_round x \<le> \<lfloor>x\<rfloor> + 1"
    using py_round_range [of x] by simp
  also have "\<dots> \<le> \<lfloor>y\<rfloor>"
    using True by simp
  also have "\<dots> \<le> py_round y"
    using py_round_range [of y] by simp
  finally show ?thesis .
next
  case False
  with assms have eq: "\<lfloor>x\<rfloor> = \<lfloor>y\<rfloor>"
    using floor_mono [of x y] by linarith
  from assms have "x - of_int \<lfloor>y\<rfloor> \<le> y - of_int \<lfloor>y\<rfloor>"
    by simp
  then show ?thesis
    by (auto simp: py_round_def Let_def eq)
qed

lemma handle_line_mid:
  "handle_line env t_start line t_end fs
     = handle_line env ((t_start + t_end) / 2) line ((t_start + t_end) / 2) fs"
proof -
  have eq: "((t_start + t_end) / 2 + (t_start + t_end) / 2) / 2 = (t_start + t_end) / 2"
    by simp
  show ?thesis
    unfolding handle_line_def eq by (rule refl)
qed

lemma bad_strip: "strip bad_sentence = bad_sentence"
  by (simp add: strip_def bad_sentence_def py_isspace_def)

lemma handle_line_ParseError:
  assumes "pynmea2_parse env line = ParseError"
  shows "handle_line env t_start line t_end (f, s) = (f, s)"
  using assms by (simp add: handle_line_def Let_def)


lemma sync_time_last_fix:
  "last_gps_utc s = Some u \<Longrightarrow> sync_time env None s = sync_time env (Some u) s"
  by (simp add: sync_time_def)

lemma local_naive_value:
  "naive (astimezone_aware env (replace_tzinfo_utc u)) = u + utcoffset_of_utc env u"
  by (simp add: astimezone_aware_def replace_tzinfo_utc_def Let_def)

lemma clock_calls_sync_time_Some:
  "clock_calls (sync_time env (Some u) s) =
     clock_calls s @
       [if use_local_time_var s
        then SetLocalTime (fill_SYSTEMTIME (naive (astimezone_aware env (replace_tzinfo_utc u))))
        else SetSystemTime (fill_SYSTEMTIME u)]"
  by (simp add: sync_time_unfold split: option.split)

lemma sync_time_no_fix:
  "sync_time env None s = showerror ''Sync Error'' ''No valid GPS time available.'' s"
  if "last_gps_utc s = None"
    and "\<not> py_in ''UTC'' (gps_time_str s) \<or> strptime env (py_replace (gps_time_str s) '' UTC'' []) = None"
  using that by (auto simp: sync_time_def Let_def)

lemma sync_time_fallback:
  "sync_time env None s = sync_time env (Some u) s"
  if "last_gps_utc s = None" and "py_in ''UTC'' (gps_time_str s)"
    and "strptime env (py_replace (gps_time_str s) '' UTC'' []) = Some u"
  using that by (simp add: sync_time_def Let_def)

lemma demo_fields:
  "fill_SYSTEMTIME 62900022919000000 =
     \<lparr>wYear = 1994, wMonth = 3, wDayOfWeek = 0, wDay = 23, wHour = 12, wMinute = 35,
      wSecond = 19, wMilliseconds = 0\<rparr>"
  "fill_SYSTEMTIME 62900026519000000 =
     \<lparr>wYear = 1994, wMonth = 3, wDayOfWeek = 0, wDay = 23, wHour = 13, wMinute = 35,
      wSecond = 19, wMilliseconds = 0\<rparr>"
  by (simp_all add: fill_SYSTEMTIME_def dt_year_def dt_month_def dt_day_def dt_hour_def
      dt_minute_def dt_second_def dt_microsecond_def toordinal_def ord2ymd_def us_per_day_def
      DAYS_BEFORE_MONTH_def DAYS_IN_MONTH_def py_int_def Let_def)



lemma demo_label_in: "py_in ''UTC'' ''1994-03-23 12:35:19 UTC''"
  by (simp add: startswith_def)

lemma demo_label_replace:
  "py_replace ''1994-03-23 12:35:19 UTC'' '' UTC'' [] = ''1994-03-23 12:35:19''"
  by code_simp

lemma placeholder_not_in: "\<not> py_in ''UTC'' ''--:--:--''"
  by (simp add: startswith_def)

lemma read_error_frame:
  "last_gps_utc (read_error e s) = last_gps_utc s"
  "gps_time_str (read_error e s) = gps_time_str s"
  "clock_calls (read_error e s) = clock_calls s"
  "auto_connect_var (read_error e s) = auto_connect_var s"
  "use_local_time_var (read_error e s) = use_local_time_var s"
  "app_running (read_error e s) = app_running s"
  "keep_reading (read_error e s) = keep_reading s"
  by (simp_all add: read_error_def sleep_def log_status_def)

lemma handle_line_effect:
  "(case last_gps_utc (snd (handle_line env t_start line t_end (True, s\<lparr>last_gps_utc := None\<rparr>))) of
      None \<Rightarrow>
        fst (handle_line env t_start line t_end (f, s)) = f \<and>
        clock_calls (snd (handle_line env t_start line t_end (f, s))) = clock_calls s \<and>
        last_gps_utc (snd (handle_line env t_start line t_end (f, s))) = last_gps_utc s \<and>
        gps_time_str (snd (handle_line env t_start line t_end (f, s))) = gps_time_str s
    | Some u \<Rightarrow>
        last_gps_utc (snd (handle_line env t_start line t_end (f, s))) = Some u \<and>
        fst (handle_line env t_start line t_end (f, s)) = (f \<or> auto_connect_var s) \<and>
        clock_calls (snd (handle_line env t_start line t_end (f, s)))
          = (if auto_connect_var s \<and> \<not> f then clock_calls (sync_time env (Some u) s)
             else clock_calls s))"
  by (auto simp: handle_line_def Let_def read_error_frame sync_time_frame
      clock_calls_sync_time_Some
      split: parse_outcome.split option.split)


lemma sync_calls_ser_open:
  "clock_calls (sync_time env (Some u) (s\<lparr>ser_open := b\<rparr>)) = clock_calls (sync_time env (Some u) s)"
  by (simp add: clock_calls_sync_time_Some)

lemma loop_body_effect:
  "(case decoded env it s of
      None \<Rightarrow>
        fst (loop_body env it (f, s)) = f \<and>
        clock_calls (snd (loop_body env it (f, s))) = clock_calls s \<and>
        last_gps_utc (snd (loop_body env it (f, s))) = last_gps_utc s \<and>
        gps_time_str (snd (loop_body env it (f, s))) = gps_time_str s
    | Some u \<Rightarrow>
        last_gps_utc (snd (loop_body env it (f, s))) = Some u \<and>
        fst (loop_body env it (f, s)) = (f \<or> auto_connect_var s) \<and>
        clock_calls (snd (loop_body env it (f, s)))
          = (if auto_connect_var s \<and> \<not> f then clock_calls (sync_time env (Some u) s)
             else clock_calls s))"
proof (cases "if ser_open s then None else open_outcome it")
  case (Some e)
  then show ?thesis
    by (simp add: decoded_def loop_body_def sleep_def log_status_def)
next
  case None
  show ?thesis
  proof (cases "read_outcome it")
    case (ReadRaises e)
    with None show ?thesis
      by (simp add: decoded_def loop_body_def read_error_frame)
  next
    case (ReadLine t_start raw t_end)
    have d: "decoded env it s = last_gps_utc (snd (handle_line env t_start (strip raw) t_end
        (True, (s\<lparr>ser_open := True\<rparr>)\<lparr>last_gps_utc := None\<rparr>)))"
    proof -
      have sw: "s\<lparr>last_gps_utc := None, ser_open := True\<rparr>
          = s\<lparr>ser_open := True, last_gps_utc := None\<rparr>"
        by simp
      show ?thesis
        using None ReadLine by (simp add: decoded_def loop_body_def sw)
    qed
    have b: "loop_body env it (f, s)
        = handle_line env t_start (strip raw) t_end (f, s\<lparr>ser_open := True\<rparr>)"
      using None ReadLine by (simp add: loop_body_def)
    show ?thesis
      unfolding d b
      using handle_line_effect [where env = env and t_start = t_start and line = "strip raw"
          and t_end = t_end and s = "s\<lparr>ser_open := True\<rparr>" and f = f]
      by (cases f) (auto simp: sync_calls_ser_open split: option.splits)
  qed
qed








lemma step_keeps_label:
  assumes "last_gps_utc s = None \<longrightarrow> gps_time_str s = ''--:--:--''"
  shows "last_gps_utc (snd (step env a (f, s))) = None
           \<longrightarrow> gps_time_str (snd (step env a (f, s))) = ''--:--:--''"
proof (cases a)
  case (Thread_pass it)
  show ?thesis
  proof (cases "decoded env it s")
    case None
    with loop_body_effect [of env it f s] assms Thread_pass show ?thesis
      by simp
  next
    case (Some u)
    with loop_body_effect [of env it f s] assms Thread_pass show ?thesis
      by simp
  qed
next
  case Sync_button
  with assms show ?thesis
    by (simp add: sync_time_frame)
next
  case (Timer i)
  with assms show ?thesis
    by (simp add: timer_fires_def auto_sync_callback_def schedule_auto_sync_def
        report_callback_exception_def sync_time_frame Let_def split: sum.split)
next
  case (Apply_button entry)
  with assms show ?thesis
    by (simp add: apply_auto_sync_interval_def schedule_auto_sync_def save_config_def
        report_callback_exception_def log_status_def showerror_def Let_def
        split: option.split sum.split)
next
  case (Auto_connect_check b)
  with assms show ?thesis
    by (simp add: save_config_def showerror_def split: option.split)
next
  case (Local_time_check b)
  with assms show ?thesis
    by (simp add: save_config_def showerror_def split: option.split)
qed

lemma run_keeps_label:
  "last_gps_utc (snd fs) = None \<longrightarrow> gps_time_str (snd fs) = ''--:--:--'' \<Longrightarrow>
   last_gps_utc (snd (run env acts fs)) = None
     \<longrightarrow> gps_time_str (snd (run env acts fs)) = ''--:--:--''"
proof (induction acts arbitrary: fs)
  case Nil
  then show ?case by simp
next
  case (Cons a acts)
  obtain f s where fs: "fs = (f, s)"
    by (cases fs)
  have "last_gps_utc (snd (step env a fs)) = None
      \<longrightarrow> gps_time_str (snd (step env a fs)) = ''--:--:--''"
    unfolding fs using Cons.prems by (intro step_keeps_label) (simp add: fs)
  from Cons.IH [OF this] show ?case
    by simp
qed

lemma demo_bad_pass:
  "loop_body demo_env bad_read (f, s) = (f, s\<lparr>ser_open := True\<rparr>)"
proof -
  have h1: "ser_open s \<or> open_outcome bad_read = None"
    and h2: "read_outcome bad_read = ReadLine 120 bad_sentence 121"
    by (simp_all add: bad_read_def)
  have h4: "pynmea2_parse demo_env (strip bad_sentence) = ParseError"
    unfolding bad_strip
    by (simp add: demo_env_def bad_sentence_def demo_sentence_def void_sentence_def)
  show ?thesis
    unfolding loop_body_reads [OF h1 h2] by (rule handle_line_ParseError [OF h4])
qed

lemma demo_void_pass:
  "loop_body demo_env void_read (f, s) = (f, s\<lparr>ser_open := True\<rparr>)"
proof -
  have h1: "ser_open s \<or> open_outcome void_read = None"
    and h2: "read_outcome void_read = ReadLine 120 void_sentence 121"
    by (simp_all add: void_read_def)
  have rej: "strip void_sentence = [] \<or>
      \<not> (startswith (strip void_sentence) ''$GPRMC'' \<or> startswith (strip void_sentence) ''$GNRMC'') \<or>
      (\<exists>m. pynmea2_parse demo_env (strip void_sentence) = Parsed m \<and>
           (\<not> is_valid m \<or> datestamp m = None \<or> timestamp m = None))"
    unfolding void_strip
    by (simp add: demo_env_def void_fix_def void_sentence_def demo_sentence_def)
  show ?thesis
    unfolding loop_body_reads [OF h1 h2] by (rule handle_line_rejected [OF rej])
qed

lemma step_keeps_fix:
  assumes "last_gps_utc s \<noteq> None"
  shows "last_gps_utc (snd (step env a (f, s))) \<noteq> None"
proof (cases a)
  case (Thread_pass it)
  show ?thesis
  proof (cases "decoded env it s")
    case None
    with loop_body_effect [of env it f s] assms Thread_pass show ?thesis
      by simp
  next
    case (Some u)
    with loop_body_effect [of env it f s] assms Thread_pass show ?thesis
      by simp
  qed
next
  case Sync_button
  with assms show ?thesis
    by (simp add: sync_time_frame)
next
  case (Timer i)
  with assms show ?thesis
    by (simp add: timer_fires_def auto_sync_callback_def schedule_auto_sync_def
        report_callback_exception_def sync_time_frame Let_def split: sum.split)
next
  case (Apply_button entry)
  with assms show ?thesis
    by (simp add: apply_auto_sync_interval_def schedule_auto_sync_def save_config_def
        report_callback_exception_def log_status_def showerror_def Let_def
        split: option.split sum.split)
next
  case (Auto_connect_check b)
  with assms show ?thesis
    by (simp add: save_config_def showerror_def split: option.split)
next
  case (Local_time_check b)
  with assms show ?thesis
    by (simp add: save_config_def showerror_def split: option.split)
qed

lemma run_keeps_fix:
  "last_gps_utc (snd fs) \<noteq> None \<Longrightarrow> last_gps_utc (snd (run env acts fs)) \<noteq> None"
proof (induction acts arbitrary: fs)
  case Nil
  then show ?case by simp
next
  case (Cons a acts)
  obtain f s where fs: "fs = (f, s)"
    by (cases fs)
  have "last_gps_utc (snd (step env a fs)) \<noteq> None"
    unfolding fs using Cons.prems by (intro step_keeps_fix) (simp add: fs)
  from Cons.IH [OF this] show ?case
    by simp
qed

lemma run_append: "run env (as @ bs) fs = run env bs (run env as fs)"
  by (induction as arbitrary: fs) simp_all
















section \<open>The offset of an accepted fix\<close>

text \<open>
  C1. When a pass of the loop reads a line that begins with \<open>$GPRMC\<close> or \<open>$GNRMC\<close>,
  parses, is valid and has a date and a time, the fix \<open>combine d t\<close> becomes the last
  fix, and the stored delta is the difference, in seconds, of the fix converted to a
  local aware datetime and the mid-point estimate converted to a local aware datetime.
  That is the fix, read as UTC, minus the UTC instant of the estimate: the zone offset
  of the fix cancels. In the scenario of the sentence of 1994-03-23T12:35:19 received
  at 13:35:19.050 local time at UTC+1 (12:35:19.050 UTC) the delta is -0.05.
\<close>

theorem offset_of_accepted_fix:
  assumes "ser_open s \<or> open_outcome it = None"
      and "read_outcome it = ReadLine t_start text t_end"
      and "strip text \<noteq> []"
      and "startswith (strip text) ''$GPRMC'' \<or> startswith (strip text) ''$GNRMC''"
      and "pynmea2_parse env (strip text) = Parsed msg"
      and "is_valid msg" and "datestamp msg = Some d" and "timestamp msg = Some t"
  shows "last_gps_utc (snd (loop_body env it (f, s))) = Some (combine d t) \<and>
         last_delta_sec (snd (loop_body env it (f, s))) =
           Some (total_seconds
                   (aware_sub (astimezone_aware env (replace_tzinfo_utc (combine d t)))
                      (astimezone_naive env (perf_to_system_time s ((t_start + t_end) / 2))))) \<and>
         last_delta_sec (snd (loop_body env it (f, s))) =
           Some (of_int (combine d t
                    - (perf_to_system_time s ((t_start + t_end) / 2)
                        - utcoffset_of_local env (perf_to_system_time s ((t_start + t_end) / 2))))
                 / 1000000)"
proof -
  let ?s1 = "s\<lparr>ser_open := True\<rparr>"
  have body: "loop_body env it (f, s) = handle_line env t_start (strip text) t_end (f, ?s1)"
    using assms(1,2) by (auto simp: loop_body_def Let_def)
  have pts: "perf_to_system_time ?s1 x = perf_to_system_time s x" for x
    by (simp add: perf_to_system_time_def)
  show ?thesis
    unfolding body handle_line_accepted [OF assms(3-8)]
    by (simp add: Let_def sync_time_frame pts delta_value)
qed

theorem offset_of_accepted_fix_witness:
  "last_gps_utc (snd (loop_body demo_env demo_read (False, demo_app))) = Some 62900022919000000 \<and>
   last_delta_sec (snd (loop_body demo_env demo_read (False, demo_app))) = Some (- 1 / 20)"
proof -
  let ?text = "demo_sentence @ [CHR 0x0D, CHR 0x0A]"
  have h1: "ser_open demo_app \<or> open_outcome demo_read = None"
    by (simp add: demo_read_def)
  have h2: "read_outcome demo_read = ReadLine 119 ?text (1191 / 10)"
    by (simp add: demo_read_def)
  have h3: "strip ?text \<noteq> []"
    unfolding demo_strip by (simp add: demo_sentence_def)
  have h4: "startswith (strip ?text) ''$GPRMC'' \<or> startswith (strip ?text) ''$GNRMC''"
    unfolding demo_strip by (simp add: demo_sentence_def startswith_def)
  have h5: "pynmea2_parse demo_env (strip ?text) = Parsed demo_fix"
    unfolding demo_strip by (simp add: demo_env_def)
  have h6: "is_valid demo_fix"
    and h7: "datestamp demo_fix = Some \<lparr>d_year = 1994, d_month = 3, d_day = 23\<rparr>"
    and h8: "timestamp demo_fix =
               Some \<lparr>t_hour = 12, t_minute = 35, t_second = 19, t_microsecond = 0\<rparr>"
    by (simp_all add: demo_fix_def)
  note th = offset_of_accepted_fix [OF h1 h2 h3 h4 h5 h6 h7 h8, of False,
      unfolded demo_combine demo_mid]
  have off: "utcoffset_of_local demo_env 62900026519050000 = 3600000000"
    by (simp add: demo_env_def)
  from th have "last_gps_utc (snd (loop_body demo_env demo_read (False, demo_app)))
      = Some 62900022919000000"
    by (rule conjunct1)
  moreover from th [THEN conjunct2, THEN conjunct2]
  have "last_delta_sec (snd (loop_body demo_env demo_read (False, demo_app))) = Some (- 1 / 20)"
    unfolding off by simp
  ultimately show ?thesis by (rule conjI)
qed

section \<open>Which lines give a fix\<close>

text \<open>
  C2. For a pass of the loop that reads a line: when the stripped line begins with
  \<open>$GPRMC\<close> or \<open>$GNRMC\<close>, parses, has its validity flag set and carries a date and a
  time, the last fix becomes the datetime that combines the two; when the stripped line
  is empty, begins with neither identifier, is flagged not valid or lacks the date or
  the time, the pass changes nothing but the open port: the first-fix flag, the last
  fix, the delta, the label, the logs and the clock calls are as before.
\<close>

theorem decode_accepts_or_skips:
  assumes "ser_open s \<or> open_outcome it = None"
      and "read_outcome it = ReadLine t_start text t_end"
  shows "((startswith (strip text) ''$GPRMC'' \<or> startswith (strip text) ''$GNRMC'') \<and>
          pynmea2_parse env (strip text) = Parsed msg \<and>
          is_valid msg \<and> datestamp msg = Some d \<and> timestamp msg = Some t
          \<longrightarrow> last_gps_utc (snd (loop_body env it (f, s))) = Some (combine d t)) \<and>
         (strip text = [] \<or>
          \<not> (startswith (strip text) ''$GPRMC'' \<or> startswith (strip text) ''$GNRMC'') \<or>
          (\<exists>m. pynmea2_parse env (strip text) = Parsed m \<and>
               (\<not> is_valid m \<or> datestamp m = None \<or> timestamp m = None))
          \<longrightarrow> loop_body env it (f, s) = (f, s\<lparr>ser_open := True\<rparr>) \<and>
              last_gps_utc (snd (loop_body env it (f, s))) = last_gps_utc s \<and>
              last_delta_sec (snd (loop_body env it (f, s))) = last_delta_sec s)"
proof (intro conjI impI)
  assume a: "(startswith (strip text) ''$GPRMC'' \<or> startswith (strip text) ''$GNRMC'') \<and>
          pynmea2_parse env (strip text) = Parsed msg \<and>
          is_valid msg \<and> datestamp msg = Some d \<and> timestamp msg = Some t"
  then have ne: "strip text \<noteq> []"
    by (auto simp: startswith_def)
  from a have "handle_line env t_start (strip text) t_end (f, s\<lparr>ser_open := True\<rparr>) =
     (let gps_utc = combine d t;
          s2 = s\<lparr>ser_open := True\<rparr>\<lparr>last_gps_utc := Some gps_utc,
                 gps_time_str := strftime_utc env gps_utc,
                 last_delta_sec := Some (total_seconds
                    (aware_sub (astimezone_aware env (replace_tzinfo_utc gps_utc))
                       (astimezone_naive env
                          (perf_to_system_time (s\<lparr>ser_open := True\<rparr>) ((t_start + t_end) / 2)))))\<rparr>
      in if auto_connect_var (s\<lparr>ser_open := True\<rparr>) \<and> \<not> f
         then (True, sync_time env (Some gps_utc) s2) else (f, s2))"
    using handle_line_accepted [OF ne, of env msg d t] by blast
  then show "last_gps_utc (snd (loop_body env it (f, s))) = Some (combine d t)"
    unfolding loop_body_reads [OF assms] by (simp add: Let_def sync_time_frame)
next
  assume r: "strip text = [] \<or>
          \<not> (startswith (strip text) ''$GPRMC'' \<or> startswith (strip text) ''$GNRMC'') \<or>
          (\<exists>m. pynmea2_parse env (strip text) = Parsed m \<and>
               (\<not> is_valid m \<or> datestamp m = None \<or> timestamp m = None))"
  have eq: "loop_body env it (f, s) = (f, s\<lparr>ser_open := True\<rparr>)"
    unfolding loop_body_reads [OF assms] by (rule handle_line_rejected [OF r])
  show "loop_body env it (f, s) = (f, s\<lparr>ser_open := True\<rparr>)" by (rule eq)
  show "last_gps_utc (snd (loop_body env it (f, s))) = last_gps_utc s" by (simp add: eq)
  show "last_delta_sec (snd (loop_body env it (f, s))) = last_delta_sec s" by (simp add: eq)
qed

theorem decode_accepts_or_skips_witness:
  "last_gps_utc (snd (loop_body demo_env demo_read (False, demo_app))) = Some 62900022919000000 \<and>
   loop_body demo_env void_read (True, demo_app) = (True, demo_app\<lparr>ser_open := True\<rparr>) \<and>
   last_gps_utc (snd (loop_body demo_env void_read (True, demo_app))) = None"
proof -
  let ?text = "demo_sentence @ [CHR 0x0D, CHR 0x0A]"
  have h1: "ser_open demo_app \<or> open_outcome demo_read = None"
    by (simp add: demo_read_def)
  have h2: "read_outcome demo_read = ReadLine 119 ?text (1191 / 10)"
    by (simp add: demo_read_def)
  have acc: "(startswith (strip ?text) ''$GPRMC'' \<or> startswith (strip ?text) ''$GNRMC'') \<and>
      pynmea2_parse demo_env (strip ?text) = Parsed demo_fix \<and> is_valid demo_fix \<and>
      datestamp demo_fix = Some \<lparr>d_year = 1994, d_month = 3, d_day = 23\<rparr> \<and>
      timestamp demo_fix = Some \<lparr>t_hour = 12, t_minute = 35, t_second = 19, t_microsecond = 0\<rparr>"
    unfolding demo_strip by (simp add: demo_env_def demo_fix_def demo_sentence_def startswith_def)
  have g1: "ser_open demo_app \<or> open_outcome void_read = None"
    by (simp add: void_read_def)
  have g2: "read_outcome void_read = ReadLine 120 void_sentence 121"
    by (simp add: void_read_def)
  have rej: "strip void_sentence = [] \<or>
      \<not> (startswith (strip void_sentence) ''$GPRMC'' \<or> startswith (strip void_sentence) ''$GNRMC'') \<or>
      (\<exists>m. pynmea2_parse demo_env (strip void_sentence) = Parsed m \<and>
           (\<not> is_valid m \<or> datestamp m = None \<or> timestamp m = None))"
    unfolding void_strip
    by (simp add: demo_env_def void_fix_def void_sentence_def demo_sentence_def)
  have none: "last_gps_utc demo_app = None"
    by (simp add: demo_app_def initial_app_def)
  from decode_accepts_or_skips [OF h1 h2, THEN conjunct1, rule_format, OF acc, of False]
  have a: "last_gps_utc (snd (loop_body demo_env demo_read (False, demo_app)))
      = Some 62900022919000000"
    unfolding demo_combine .
  from decode_accepts_or_skips [OF g1 g2, THEN conjunct2, rule_format, OF rej, of True]
  have b: "loop_body demo_env void_read (True, demo_app) = (True, demo_app\<lparr>ser_open := True\<rparr>)"
    and c: "last_gps_utc (snd (loop_body demo_env void_read (True, demo_app))) = None"
    using none by simp_all
  from a b c show ?thesis by simp
qed

section \<open>The mid-point and the wall-clock estimate\<close>

text \<open>
  C3, as the code has it. The tick that the loop hands to \<open>perf_to_system_time\<close> is the
  arithmetic mean \<open>(t_start + t_end) / 2\<close> of the two samples taken around the read: the
  delta stored for an accepted line is computed from the estimate at that tick, and from
  nothing else of the two samples (reading between \<open>t_start\<close> and \<open>t_end\<close> gives the
  result of a read that starts and ends at their mean). The estimate for a tick \<open>t\<close> is
  \<open>time_base\<close> plus the tick difference \<open>t - perf_base\<close> rounded to a whole number of
  microseconds, ties to even: it is within half a microsecond of the exact sum, equal to
  it when the tick difference is a whole number of microseconds, and it never decreases
  as the tick grows. Ticks are taken as real numbers. In the scenario of C1 (samples 119
  and 119.1, mean 119.05) the delta is -0.05; the sum of the samples in place of their
  mean would give -119.1.
\<close>

theorem estimate_wall_rounded:
  "((ser_open s \<or> oo = None) \<and> strip raw \<noteq> [] \<and>
    (startswith (strip raw) ''$GPRMC'' \<or> startswith (strip raw) ''$GNRMC'') \<and>
    pynmea2_parse env (strip raw) = Parsed msg \<and>
    is_valid msg \<and> datestamp msg = Some d \<and> timestamp msg = Some tm \<longrightarrow>
      last_delta_sec (snd (loop_body env
          \<lparr>open_outcome = oo, read_outcome = ReadLine t_start raw t_end\<rparr> (f, s)))
        = Some (total_seconds
            (aware_sub (astimezone_aware env (replace_tzinfo_utc (combine d tm)))
               (astimezone_naive env
                  (time_base s + py_round (((t_start + t_end) / 2 - perf_base s) * 1000000)))))) \<and>
   loop_body env \<lparr>open_outcome = oo, read_outcome = ReadLine t_start raw t_end\<rparr> fs
     = loop_body env \<lparr>open_outcome = oo,
         read_outcome = ReadLine ((t_start + t_end) / 2) raw ((t_start + t_end) / 2)\<rparr> fs \<and>
   perf_to_system_time s t = time_base s + py_round ((t - perf_base s) * 1000000) \<and>
   \<bar>of_int (perf_to_system_time s t) - (of_int (time_base s) + (t - perf_base s) * 1000000)\<bar>
     \<le> 1 / 2 \<and>
   ((t - perf_base s) * 1000000 = of_int k \<longrightarrow> perf_to_system_time s t = time_base s + k) \<and>
   (t \<le> t' \<longrightarrow> perf_to_system_time s t \<le> perf_to_system_time s t')"
proof (intro conjI impI)
  have def: "perf_to_system_time s x = time_base s + py_round ((x - perf_base s) * 1000000)"
    for s x
    by (simp add: perf_to_system_time_def timedelta_seconds_def)
  show "last_delta_sec (snd (loop_body env
          \<lparr>open_outcome = oo, read_outcome = ReadLine t_start raw t_end\<rparr> (f, s)))
        = Some (total_seconds
            (aware_sub (astimezone_aware env (replace_tzinfo_utc (combine d tm)))
               (astimezone_naive env
                  (time_base s + py_round (((t_start + t_end) / 2 - perf_base s) * 1000000)))))"
    if acc: "(ser_open s \<or> oo = None) \<and> strip raw \<noteq> [] \<and>
      (startswith (strip raw) ''$GPRMC'' \<or> startswith (strip raw) ''$GNRMC'') \<and>
      pynmea2_parse env (strip raw) = Parsed msg \<and>
      is_valid msg \<and> datestamp msg = Some d \<and> timestamp msg = Some tm"
  proof -
    let ?it = "\<lparr>open_outcome = oo, read_outcome = ReadLine t_start raw t_end\<rparr>"
    have h1: "ser_open s \<or> open_outcome ?it = None"
      using acc by simp
    have h2: "read_outcome ?it = ReadLine t_start raw t_end"
      by simp
    from acc have h3: "strip raw \<noteq> []"
      and h4: "startswith (strip raw) ''$GPRMC'' \<or> startswith (strip raw) ''$GNRMC''"
      and h5: "pynmea2_parse env (strip raw) = Parsed msg"
      and h6: "is_valid msg" and h7: "datestamp msg = Some d" and h8: "timestamp msg = Some tm"
      by simp_all
    have pts: "perf_to_system_time (s\<lparr>ser_open := True\<rparr>) x
        = time_base s + py_round ((x - perf_base s) * 1000000)" for x
      by (simp add: def)
    show ?thesis
      unfolding loop_body_reads [OF h1 h2] handle_line_accepted [OF h3 h4 h5 h6 h7 h8]
      by (simp add: Let_def sync_time_frame pts)
  qed
  show "loop_body env \<lparr>open_outcome = oo, read_outcome = ReadLine t_start raw t_end\<rparr> fs
     = loop_body env \<lparr>open_outcome = oo,
         read_outcome = ReadLine ((t_start + t_end) / 2) raw ((t_start + t_end) / 2)\<rparr> fs"
    using handle_line_mid [of env t_start "strip raw" t_end]
    by (simp add: loop_body_def Let_def split: option.split)
  show "perf_to_system_time s t = time_base s + py_round ((t - perf_base s) * 1000000)"
    by (rule def)
  show "\<bar>of_int (perf_to_system_time s t)
          - (of_int (time_base s) + (t - perf_base s) * 1000000)\<bar> \<le> 1 / 2"
    using py_round_error [of "(t - perf_base s) * 1000000"] by (simp add: def)
  show "perf_to_system_time s t = time_base s + k"
    if "(t - perf_base s) * 1000000 = of_int k"
    using that by (simp add: def py_round_of_int)
  show "perf_to_system_time s t \<le> perf_to_system_time s t'" if "t \<le> t'"
  proof -
    from that have "(t - perf_base s) * 1000000 \<le> (t' - perf_base s) * 1000000"
      by simp
    then show ?thesis
      by (simp add: def py_round_mono)
  qed
qed

theorem estimate_wall_rounded_witness:
  "last_delta_sec (snd (loop_body demo_env demo_read (False, demo_app))) = Some (- 1 / 20) \<and>
   last_delta_sec (snd (loop_body demo_env demo_read (False, demo_app))) \<noteq> Some (- 1191 / 10) \<and>
   loop_body demo_env demo_read (False, demo_app)
     = loop_body demo_env \<lparr>open_outcome = None,
         read_outcome = ReadLine (11905 / 100) (demo_sentence @ [CHR 0x0D, CHR 0x0A])
           (11905 / 100)\<rparr> (False, demo_app) \<and>
   perf_to_system_time demo_app (11905 / 100) = 62900026519050000 \<and>
   perf_to_system_time demo_app (11905 / 100) \<le> perf_to_system_time demo_app 120"
proof -
  let ?raw = "demo_sentence @ [CHR 0x0D, CHR 0x0A]"
  note th = estimate_wall_rounded [where env = demo_env and oo = None and t_start = 119
      and raw = ?raw and t_end = "1191 / 10" and fs = "(False, demo_app)" and s = demo_app
      and t = "11905 / 100" and k = 19050000 and t' = 120 and f = False and msg = demo_fix
      and d = "\<lparr>d_year = 1994, d_month = 3, d_day = 23\<rparr>"
      and tm = "\<lparr>t_hour = 12, t_minute = 35, t_second = 19, t_microsecond = 0\<rparr>"]
  have acc: "(ser_open demo_app \<or> (None :: string option) = None) \<and> strip ?raw \<noteq> [] \<and>
      (startswith (strip ?raw) ''$GPRMC'' \<or> startswith (strip ?raw) ''$GNRMC'') \<and>
      pynmea2_parse demo_env (strip ?raw) = Parsed demo_fix \<and>
      is_valid demo_fix \<and>
      datestamp demo_fix = Some \<lparr>d_year = 1994, d_month = 3, d_day = 23\<rparr> \<and>
      timestamp demo_fix = Some \<lparr>t_hour = 12, t_minute = 35, t_second = 19, t_microsecond = 0\<rparr>"
    unfolding demo_strip
    by (simp add: demo_env_def demo_fix_def demo_sentence_def startswith_def)
  have k: "(11905 / 100 - perf_base demo_app) * 1000000 = real_of_int 19050000"
    by (simp add: demo_app_def initial_app_def)
  have le: "(11905 / 100 :: real) \<le> 120"
    by simp
  have tb: "time_base demo_app + 19050000 = 62900026519050000"
    by (simp add: demo_app_def initial_app_def)
  have mid: "(119 + 1191 / 10) / 2 = (11905 / 100 :: real)"
    by simp
  have est: "time_base demo_app + py_round ((11905 / 100 - perf_base demo_app) * 1000000)
      = 62900026519050000"
    unfolding k py_round_of_int tb ..
  have off: "utcoffset_of_local demo_env 62900026519050000 = 3600000000"
    by (simp add: demo_env_def)
  from th [THEN conjunct1, rule_format, OF acc]
  have d: "last_delta_sec (snd (loop_body demo_env demo_read (False, demo_app)))
      = Some (- 1 / 20)"
    unfolding mid est demo_combine delta_value off demo_read_def by simp
  from d have d': "last_delta_sec (snd (loop_body demo_env demo_read (False, demo_app)))
      \<noteq> Some (- 1191 / 10)"
    by simp
  from th [THEN conjunct2, THEN conjunct1]
  have a: "loop_body demo_env demo_read (False, demo_app)
     = loop_body demo_env \<lparr>open_outcome = None,
         read_outcome = ReadLine (11905 / 100) (demo_sentence @ [CHR 0x0D, CHR 0x0A])
           (11905 / 100)\<rparr> (False, demo_app)"
    unfolding mid demo_read_def .
  from th [THEN conjunct2, THEN conjunct2, THEN conjunct2, THEN conjunct2, THEN conjunct1,
      rule_format, OF k]
  have b: "perf_to_system_time demo_app (11905 / 100) = 62900026519050000"
    unfolding tb .
  from th [THEN conjunct2, THEN conjunct2, THEN conjunct2, THEN conjunct2, THEN conjunct2,
      rule_format, OF le]
  have c: "perf_to_system_time demo_app (11905 / 100) \<le> perf_to_system_time demo_app 120" .
  from d d' a b c show ?thesis by blast
qed

text \<open>
  The estimate is not the exact sum: with the anchor at tick 100, the tick 119.0500004
  gives the estimate 19.05 seconds after \<open>time_base\<close>, the same as the tick 119.05, so
  its distance from the anchor, in seconds, is not the tick difference.
\<close>

theorem estimate_wall_exact_counterexample:
  "perf_base demo_app = 100 \<and>
   perf_to_system_time demo_app (1190500004 / 10000000) = time_base demo_app + 19050000 \<and>
   total_seconds (perf_to_system_time demo_app (1190500004 / 10000000) - time_base demo_app)
     \<noteq> 1190500004 / 10000000 - perf_base demo_app"
  by (simp add: perf_to_system_time_def timedelta_seconds_def py_round_def total_seconds_def
      demo_app_def initial_app_def Let_def)

section \<open>Sync with no fix\<close>

text \<open>
  C4. Start from a state in which no fix is stored and the GPS time label shows its
  placeholder, as \<open>__init__\<close> leaves them, and let the application run in any way:
  passes of the thread, presses of SYNC to GPS and Apply, timers firing, check boxes
  toggled. If the slot of the last fix is empty after the run, then it was empty at every
  moment of the run (no fix was ever stored), and \<open>sync_time\<close> with no argument only
  shows the error box \<open>No valid GPS time available.\<close>: it makes no clock call, neither
  \<open>SetSystemTime\<close> nor \<open>SetLocalTime\<close>.
\<close>

theorem sync_without_fix_fails:
  assumes "last_gps_utc s0 = None" and "gps_time_str s0 = ''--:--:--''"
      and "last_gps_utc (snd (run env acts (f0, s0))) = None"
  shows "sync_time env None (snd (run env acts (f0, s0)))
           = showerror ''Sync Error'' ''No valid GPS time available.''
               (snd (run env acts (f0, s0))) \<and>
         clock_calls (sync_time env None (snd (run env acts (f0, s0))))
           = clock_calls (snd (run env acts (f0, s0))) \<and>
         error_boxes (sync_time env None (snd (run env acts (f0, s0))))
           = error_boxes (snd (run env acts (f0, s0)))
               @ [(''Sync Error'', ''No valid GPS time available.'')] \<and>
         (\<forall>as bs. acts = as @ bs \<longrightarrow> last_gps_utc (snd (run env as (f0, s0))) = None)"
proof -
  let ?s = "snd (run env acts (f0, s0))"
  have "last_gps_utc ?s = None \<longrightarrow> gps_time_str ?s = ''--:--:--''"
    using assms(1,2) by (intro run_keeps_label) simp
  with assms(3) have "gps_time_str ?s = ''--:--:--''"
    by simp
  then have "\<not> py_in ''UTC'' (gps_time_str ?s)"
    using placeholder_not_in by simp
  then have eq: "sync_time env None ?s
      = showerror ''Sync Error'' ''No valid GPS time available.'' ?s"
    using sync_time_no_fix [OF assms(3)] by blast
  have ever: "last_gps_utc (snd (run env as (f0, s0))) = None" if "acts = as @ bs" for as bs
  proof (rule ccontr)
    assume "last_gps_utc (snd (run env as (f0, s0))) \<noteq> None"
    then have "last_gps_utc (snd (run env bs (run env as (f0, s0)))) \<noteq> None"
      by (rule run_keeps_fix)
    with assms(3) that show False
      by (simp add: run_append)
  qed
  show ?thesis
    unfolding eq using ever by (simp add: showerror_def)
qed

theorem sync_without_fix_fails_witness:
  "last_gps_utc (snd (run demo_env [Thread_pass bad_read, Thread_pass void_read, Sync_button]
                        (False, demo_app))) = None \<and>
   clock_calls (sync_time demo_env None
      (snd (run demo_env [Thread_pass bad_read, Thread_pass void_read, Sync_button]
              (False, demo_app)))) = [] \<and>
   error_boxes (sync_time demo_env None
      (snd (run demo_env [Thread_pass bad_read, Thread_pass void_read, Sync_button]
              (False, demo_app))))
     = [(''Sync Error'', ''No valid GPS time available.''),
        (''Sync Error'', ''No valid GPS time available.'')]"
proof -
  let ?acts = "[Thread_pass bad_read, Thread_pass void_read, Sync_button]"
  let ?s1 = "demo_app\<lparr>ser_open := True\<rparr>"
  have flags: "app_running demo_app" "keep_reading demo_app"
    "app_running ?s1" "keep_reading ?s1"
    by (simp_all add: demo_app_def initial_app_def)
  have n0: "last_gps_utc demo_app = None" and l0: "gps_time_str demo_app = ''--:--:--''"
    by (simp_all add: demo_app_def initial_app_def)
  have n1: "last_gps_utc ?s1 = None" and l1: "\<not> py_in ''UTC'' (gps_time_str ?s1)"
    using placeholder_not_in by (simp_all add: demo_app_def initial_app_def)
  have r: "run demo_env ?acts (False, demo_app) = (False, sync_time demo_env None ?s1)"
    by (simp add: flags demo_bad_pass demo_void_pass)
  have e: "sync_time demo_env None ?s1
      = showerror ''Sync Error'' ''No valid GPS time available.'' ?s1"
    using sync_time_no_fix [OF n1] l1 by blast
  have n: "last_gps_utc (snd (run demo_env ?acts (False, demo_app))) = None"
    unfolding r by (simp add: sync_time_frame n0)
  have c: "clock_calls (snd (run demo_env ?acts (False, demo_app))) = []"
    and b: "error_boxes (snd (run demo_env ?acts (False, demo_app)))
      = [(''Sync Error'', ''No valid GPS time available.'')]"
    unfolding r e by (simp_all add: showerror_def demo_app_def initial_app_def)
  note th = sync_without_fix_fails [OF n0 l0 n]
  from th [THEN conjunct2, THEN conjunct1] c
  have "clock_calls (sync_time demo_env None (snd (run demo_env ?acts (False, demo_app)))) = []"
    by simp
  moreover from th [THEN conjunct2, THEN conjunct2, THEN conjunct1] b
  have "error_boxes (sync_time demo_env None (snd (run demo_env ?acts (False, demo_app))))
     = [(''Sync Error'', ''No valid GPS time available.''),
        (''Sync Error'', ''No valid GPS time available.'')]"
    by simp
  ultimately show ?thesis
    using n by blast
qed

section \<open>Local time or UTC\<close>

text \<open>
  C5. For the instant \<open>u\<close> that \<open>sync_time\<close> resolves (its argument, or the last fix
  when there is no argument): when the local-time preference is set, exactly one call is
  made, \<open>SetLocalTime\<close>, on the fields of the naive local datetime obtained from \<open>u\<close> by
  attaching UTC, converting to the local zone and dropping the zone, which is \<open>u\<close> plus
  the local offset at \<open>u\<close>; when it is not set, exactly one call is made,
  \<open>SetSystemTime\<close>, on the fields of \<open>u\<close> itself.
\<close>

theorem sync_applies_local_or_utc:
  assumes "g = Some u \<or> (g = None \<and> last_gps_utc s = Some u)"
  shows "(use_local_time_var s \<longrightarrow>
            clock_calls (sync_time env g s)
              = clock_calls s @
                  [SetLocalTime
                     (fill_SYSTEMTIME (naive (astimezone_aware env (replace_tzinfo_utc u))))] \<and>
            naive (astimezone_aware env (replace_tzinfo_utc u)) = u + utcoffset_of_utc env u) \<and>
         (\<not> use_local_time_var s \<longrightarrow>
            clock_calls (sync_time env g s) = clock_calls s @ [SetSystemTime (fill_SYSTEMTIME u)])"
proof -
  from assms have "sync_time env g s = sync_time env (Some u) s"
    by (auto simp: sync_time_last_fix)
  then show ?thesis
    by (simp add: clock_calls_sync_time_Some local_naive_value)
qed

theorem sync_applies_local_or_utc_witness:
  "clock_calls (sync_time demo_env None demo_synced)
     = [SetLocalTime \<lparr>wYear = 1994, wMonth = 3, wDayOfWeek = 0, wDay = 23, wHour = 13,
                      wMinute = 35, wSecond = 19, wMilliseconds = 0\<rparr>] \<and>
   clock_calls (sync_time demo_env (Some 62900022919000000)
                  (demo_app\<lparr>use_local_time_var := False\<rparr>))
     = [SetSystemTime \<lparr>wYear = 1994, wMonth = 3, wDayOfWeek = 0, wDay = 23, wHour = 12,
                       wMinute = 35, wSecond = 19, wMilliseconds = 0\<rparr>]"
proof -
  have a: "None = Some (62900022919000000::int) \<or>
           ((None::int option) = None \<and> last_gps_utc demo_synced = Some 62900022919000000)"
    by (simp add: demo_synced_def)
  have l: "use_local_time_var demo_synced" and c: "clock_calls demo_synced = []"
    by (simp_all add: demo_synced_def demo_app_def initial_app_def)
  have off: "utcoffset_of_utc demo_env 62900022919000000 = 3600000000"
    by (simp add: demo_env_def)
  have b: "Some (62900022919000000::int) = Some 62900022919000000 \<or>
           (Some (62900022919000000::int) = None \<and>
            last_gps_utc (demo_app\<lparr>use_local_time_var := False\<rparr>) = Some 62900022919000000)"
    by simp
  have l': "\<not> use_local_time_var (demo_app\<lparr>use_local_time_var := False\<rparr>)"
    and c': "clock_calls (demo_app\<lparr>use_local_time_var := False\<rparr>) = []"
    by (simp_all add: demo_app_def initial_app_def)
  note t1 = sync_applies_local_or_utc [OF a, of demo_env, THEN conjunct1, rule_format, OF l]
  note t2 = sync_applies_local_or_utc [OF b, of demo_env, THEN conjunct2, rule_format, OF l']
  from t1 have "clock_calls (sync_time demo_env None demo_synced)
     = [SetLocalTime (fill_SYSTEMTIME 62900026519000000)]"
    by (simp add: c off)
  moreover from t2 have "clock_calls (sync_time demo_env (Some 62900022919000000)
                  (demo_app\<lparr>use_local_time_var := False\<rparr>))
     = [SetSystemTime (fill_SYSTEMTIME 62900022919000000)]"
    by (simp add: c')
  ultimately show ?thesis
    unfolding demo_fields by (rule conjI)
qed

section \<open>Auto-sync on the first fix\<close>



section \<open>A sentence that does not parse\<close>

text \<open>
  C7, as the code has it. When a line that begins with \<open>$GPRMC\<close> or \<open>$GNRMC\<close> makes the
  parser raise \<open>ParseError\<close>, the pass changes nothing but the open port: the last fix
  and the delta are as before, the port stays open, the thread does not sleep, and no
  line is written to the status box. The loop goes on with the next pass.
\<close>

theorem malformed_sentence_skipped:
  assumes "ser_open s \<or> open_outcome it = None"
      and "read_outcome it = ReadLine t_start text t_end"
      and "startswith (strip text) ''$GPRMC'' \<or> startswith (strip text) ''$GNRMC''"
      and "pynmea2_parse env (strip text) = ParseError"
      and "app_running s" and "keep_reading s"
  shows "loop_body env it (f, s) = (f, s\<lparr>ser_open := True\<rparr>) \<and>
         status_box (snd (loop_body env it (f, s))) = status_box s \<and>
         last_gps_utc (snd (loop_body env it (f, s))) = last_gps_utc s \<and>
         last_delta_sec (snd (loop_body env it (f, s))) = last_delta_sec s \<and>
         while_loop env (it # its) (f, s) = while_loop env its (f, s\<lparr>ser_open := True\<rparr>)"
proof -
  have eq: "loop_body env it (f, s) = (f, s\<lparr>ser_open := True\<rparr>)"
    unfolding loop_body_reads [OF assms(1,2)] by (rule handle_line_ParseError [OF assms(4)])
  then show ?thesis
    using assms(5,6) by simp
qed

theorem malformed_sentence_skipped_witness:
  "loop_body demo_env bad_read (False, demo_app) = (False, demo_app\<lparr>ser_open := True\<rparr>) \<and>
   status_box (snd (loop_body demo_env bad_read (False, demo_app))) = [] \<and>
   while_loop demo_env [bad_read, demo_read] (False, demo_app)
     = while_loop demo_env [demo_read] (False, demo_app\<lparr>ser_open := True\<rparr>)"
proof -
  have h1: "ser_open demo_app \<or> open_outcome bad_read = None"
    and h2: "read_outcome bad_read = ReadLine 120 bad_sentence 121"
    by (simp_all add: bad_read_def)
  have h3: "startswith (strip bad_sentence) ''$GPRMC'' \<or> startswith (strip bad_sentence) ''$GNRMC''"
    unfolding bad_strip by (simp add: startswith_def bad_sentence_def)
  have h4: "pynmea2_parse demo_env (strip bad_sentence) = ParseError"
    unfolding bad_strip
    by (simp add: demo_env_def bad_sentence_def demo_sentence_def void_sentence_def)
  have h5: "app_running demo_app" and h6: "keep_reading demo_app"
    by (simp_all add: demo_app_def initial_app_def)
  have sb: "status_box demo_app = []"
    by (simp add: demo_app_def initial_app_def)
  note th = malformed_sentence_skipped [OF h1 h2 h3 h4 h5 h6, of False "[demo_read]"]
  from th show ?thesis
    unfolding sb by blast
qed

text \<open>
  The sentence with the checksum \<open>*00\<close> makes the parser raise \<open>ParseError\<close>; the status
  box is empty before the pass and empty after it.
\<close>

theorem malformed_sentence_not_logged_counterexample:
  "startswith (strip bad_sentence) ''$GPRMC'' \<and>
   pynmea2_parse demo_env (strip bad_sentence) = ParseError \<and>
   status_box demo_app = [] \<and>
   status_box (snd (loop_body demo_env bad_read (False, demo_app))) = []"
proof -
  have h1: "ser_open demo_app \<or> open_outcome bad_read = None"
    and h2: "read_outcome bad_read = ReadLine 120 bad_sentence 121"
    by (simp_all add: bad_read_def)
  have h3: "startswith (strip bad_sentence) ''$GPRMC''"
    unfolding bad_strip by (simp add: startswith_def bad_sentence_def)
  have h4: "pynmea2_parse demo_env (strip bad_sentence) = ParseError"
    unfolding bad_strip
    by (simp add: demo_env_def bad_sentence_def demo_sentence_def void_sentence_def)
  have sb: "status_box demo_app = []"
    by (simp add: demo_app_def initial_app_def)
  have "loop_body demo_env bad_read (False, demo_app) = (False, demo_app\<lparr>ser_open := True\<rparr>)"
    unfolding loop_body_reads [OF h1 h2] by (rule handle_line_ParseError [OF h4])
  then have "status_box (snd (loop_body demo_env bad_read (False, demo_app))) = []"
    by (simp add: sb)
  with h3 h4 sb show ?thesis by blast
qed

section \<open>The periodic timer\<close>




section \<open>The label fallback\<close>

text \<open>
  C9. With no argument and no last fix, \<open>sync_time\<close> reads the GPS time label: when the
  label contains \<open>UTC\<close> and, with every \<open> UTC\<close> removed, parses in the format
  \<open>%Y-%m-%d %H:%M:%S\<close>, the call behaves as \<open>sync_time\<close> on the parsed instant and
  the clock is set; the error box \<open>No valid GPS time available.\<close> is the whole effect
  exactly when the label lacks \<open>UTC\<close> or does not parse.
\<close>

theorem label_fallback:
  assumes "last_gps_utc s = None"
  shows "(py_in ''UTC'' (gps_time_str s) \<and>
          strptime env (py_replace (gps_time_str s) '' UTC'' []) = Some u
          \<longrightarrow> sync_time env None s = sync_time env (Some u) s \<and>
              clock_calls (sync_time env None s)
                = clock_calls s @
                    [if use_local_time_var s
                     then SetLocalTime (fill_SYSTEMTIME (u + utcoffset_of_utc env u))
                     else SetSystemTime (fill_SYSTEMTIME u)]) \<and>
         (sync_time env None s = showerror ''Sync Error'' ''No valid GPS time available.'' s
          \<longleftrightarrow> \<not> py_in ''UTC'' (gps_time_str s) \<or>
              strptime env (py_replace (gps_time_str s) '' UTC'' []) = None)"
proof (intro conjI impI iffI)
  assume ok: "py_in ''UTC'' (gps_time_str s) \<and>
          strptime env (py_replace (gps_time_str s) '' UTC'' []) = Some u"
  then show eq: "sync_time env None s = sync_time env (Some u) s"
    using sync_time_fallback [OF assms] by blast
  show "clock_calls (sync_time env None s)
      = clock_calls s @
          [if use_local_time_var s
           then SetLocalTime (fill_SYSTEMTIME (u + utcoffset_of_utc env u))
           else SetSystemTime (fill_SYSTEMTIME u)]"
    unfolding eq by (simp add: clock_calls_sync_time_Some local_naive_value)
next
  assume "\<not> py_in ''UTC'' (gps_time_str s) \<or>
      strptime env (py_replace (gps_time_str s) '' UTC'' []) = None"
  then show "sync_time env None s = showerror ''Sync Error'' ''No valid GPS time available.'' s"
    by (rule sync_time_no_fix [OF assms])
next
  assume err: "sync_time env None s = showerror ''Sync Error'' ''No valid GPS time available.'' s"
  show "\<not> py_in ''UTC'' (gps_time_str s) \<or>
      strptime env (py_replace (gps_time_str s) '' UTC'' []) = None"
  proof (rule ccontr)
    assume "\<not> (\<not> py_in ''UTC'' (gps_time_str s) \<or>
      strptime env (py_replace (gps_time_str s) '' UTC'' []) = None)"
    then obtain v where "py_in ''UTC'' (gps_time_str s)"
      and "strptime env (py_replace (gps_time_str s) '' UTC'' []) = Some v"
      by auto
    then have "sync_time env None s = sync_time env (Some v) s"
      by (rule sync_time_fallback [OF assms])
    then have "length (clock_calls (sync_time env None s)) = length (clock_calls s) + 1"
      by (simp add: clock_calls_sync_time_Some)
    moreover have "length (clock_calls (sync_time env None s)) = length (clock_calls s)"
      unfolding err by (simp add: showerror_def)
    ultimately show False by simp
  qed
qed

theorem label_fallback_witness:
  "clock_calls (sync_time demo_env None demo_labelled)
     = [SetLocalTime \<lparr>wYear = 1994, wMonth = 3, wDayOfWeek = 0, wDay = 23, wHour = 13,
                      wMinute = 35, wSecond = 19, wMilliseconds = 0\<rparr>] \<and>
   sync_time demo_env None demo_app
     = showerror ''Sync Error'' ''No valid GPS time available.'' demo_app"
proof -
  have n: "last_gps_utc demo_labelled = None" and n': "last_gps_utc demo_app = None"
    by (simp_all add: demo_labelled_def demo_app_def initial_app_def)
  have lab: "gps_time_str demo_labelled = ''1994-03-23 12:35:19 UTC''"
    and lab': "gps_time_str demo_app = ''--:--:--''"
    by (simp_all add: demo_labelled_def demo_app_def initial_app_def)
  have ok: "py_in ''UTC'' (gps_time_str demo_labelled) \<and>
      strptime demo_env (py_replace (gps_time_str demo_labelled) '' UTC'' [])
        = Some 62900022919000000"
  proof (intro conjI)
    show "py_in ''UTC'' (gps_time_str demo_labelled)"
      unfolding lab by (rule demo_label_in)
    show "strptime demo_env (py_replace (gps_time_str demo_labelled) '' UTC'' [])
        = Some 62900022919000000"
      unfolding lab demo_label_replace by (simp add: demo_env_def)
  qed
  have bad: "\<not> py_in ''UTC'' (gps_time_str demo_app) \<or>
      strptime demo_env (py_replace (gps_time_str demo_app) '' UTC'' []) = None"
    unfolding lab' using placeholder_not_in by (rule disjI1)
  have l: "use_local_time_var demo_labelled" and c: "clock_calls demo_labelled = []"
    by (simp_all add: demo_labelled_def demo_app_def initial_app_def)
  have off: "utcoffset_of_utc demo_env 62900022919000000 = 3600000000"
    by (simp add: demo_env_def)
  from label_fallback [OF n, of demo_env, THEN conjunct1, rule_format, OF ok, THEN conjunct2]
  have "clock_calls (sync_time demo_env None demo_labelled)
     = [SetLocalTime (fill_SYSTEMTIME 62900026519000000)]"
    by (simp add: l c off)
  moreover
  from label_fallback [OF n', of demo_env 0, THEN conjunct2, THEN iffD2, OF bad]
  have "sync_time demo_env None demo_app
     = showerror ''Sync Error'' ''No valid GPS time available.'' demo_app" .
  ultimately show ?thesis
    unfolding demo_fields by (rule conjI)
qed

section \<open>What is applied to the clock\<close>



end
